theory Spec2Isabelle
  imports Complex_Main
begin

section \<open>JavaScript values in number positions\<close>

text \<open>
  The services compute with JavaScript numbers. A value in a number-typed position is
  a finite number, one of the two infinities, \<open>NaN\<close>, or \<open>undefined\<close> (an absent
  optional field such as \<open>distance?\<close>, or a typed-array read past the end). A finite
  number is a real. A product or quotient whose magnitude reaches \<open>2^1024 - 2^970\<close>,
  half a step above the largest double, is the infinity of its sign, as in double
  arithmetic; rounding within the range and the sign of zero are not modelled.
  Subtraction is applied to tensor entries and box coordinates, single-precision
  values whose differences stay far inside the range. The operations below are the ones
  the source uses.
\<close>

datatype jsnum = Num real | PInf | NInf | NaN | Undef

definition overflowBound :: real where
  "overflowBound = 2 ^ 1024 - 2 ^ 970"

definition toDouble :: "real \<Rightarrow> jsnum" where
  "toDouble r =
     (if overflowBound \<le> r then PInf else if r \<le> - overflowBound then NInf else Num r)"

fun js_sub :: "jsnum \<Rightarrow> jsnum \<Rightarrow> jsnum" where
  "js_sub (Num a) (Num b) = Num (a - b)"
| "js_sub NaN _ = NaN"
| "js_sub Undef _ = NaN"
| "js_sub _ NaN = NaN"
| "js_sub _ Undef = NaN"
| "js_sub PInf PInf = NaN"
| "js_sub NInf NInf = NaN"
| "js_sub PInf _ = PInf"
| "js_sub NInf _ = NInf"
| "js_sub _ PInf = NInf"
| "js_sub _ NInf = PInf"

fun js_mul :: "jsnum \<Rightarrow> jsnum \<Rightarrow> jsnum" where
  "js_mul (Num a) (Num b) = toDouble (a * b)"
| "js_mul NaN _ = NaN"
| "js_mul Undef _ = NaN"
| "js_mul _ NaN = NaN"
| "js_mul _ Undef = NaN"
| "js_mul PInf (Num b) = (if b = 0 then NaN else if 0 < b then PInf else NInf)"
| "js_mul NInf (Num b) = (if b = 0 then NaN else if 0 < b then NInf else PInf)"
| "js_mul (Num a) PInf = (if a = 0 then NaN else if 0 < a then PInf else NInf)"
| "js_mul (Num a) NInf = (if a = 0 then NaN else if 0 < a then NInf else PInf)"
| "js_mul PInf PInf = PInf"
| "js_mul NInf NInf = PInf"
| "js_mul PInf NInf = NInf"
| "js_mul NInf PInf = NInf"

fun js_div :: "jsnum \<Rightarrow> jsnum \<Rightarrow> jsnum" where
  "js_div (Num a) (Num b) =
     (if b = 0 then (if a = 0 then NaN else if 0 < a then PInf else NInf)
      else toDouble (a / b))"
| "js_div NaN _ = NaN"
| "js_div Undef _ = NaN"
| "js_div _ NaN = NaN"
| "js_div _ Undef = NaN"
| "js_div (Num a) _ = Num 0"
| "js_div PInf (Num b) = (if 0 \<le> b then PInf else NInf)"
| "js_div NInf (Num b) = (if 0 \<le> b then NInf else PInf)"
| "js_div _ _ = NaN"

fun js_lt :: "jsnum \<Rightarrow> jsnum \<Rightarrow> bool" where
  "js_lt (Num a) (Num b) = (a < b)"
| "js_lt (Num a) PInf = True"
| "js_lt NInf (Num b) = True"
| "js_lt NInf PInf = True"
| "js_lt _ _ = False"

definition js_gt :: "jsnum \<Rightarrow> jsnum \<Rightarrow> bool" where
  "js_gt a b = js_lt b a"

fun js_strict_eq :: "jsnum \<Rightarrow> jsnum \<Rightarrow> bool" where
  "js_strict_eq (Num a) (Num b) = (a = b)"
| "js_strict_eq PInf PInf = True"
| "js_strict_eq NInf NInf = True"
| "js_strict_eq Undef Undef = True"
| "js_strict_eq _ _ = False"

definition js_ge :: "jsnum \<Rightarrow> jsnum \<Rightarrow> bool" where
  "js_ge a b = (js_gt a b \<or> (a \<noteq> Undef \<and> js_strict_eq a b))"

fun truthy :: "jsnum \<Rightarrow> bool" where
  "truthy (Num a) = (a \<noteq> 0)"
| "truthy PInf = True"
| "truthy NInf = True"
| "truthy NaN = False"
| "truthy Undef = False"

definition js_or :: "jsnum \<Rightarrow> jsnum \<Rightarrow> jsnum" where
  "js_or a b = (if truthy a then a else b)"

fun js_floor :: "jsnum \<Rightarrow> jsnum" where
  "js_floor (Num a) = Num (of_int \<lfloor>a\<rfloor>)"
| "js_floor PInf = PInf"
| "js_floor NInf = NInf"
| "js_floor _ = NaN"

fun js_round :: "jsnum \<Rightarrow> jsnum" where
  "js_round (Num a) = Num (of_int \<lfloor>a + 1 / 2\<rfloor>)"
| "js_round PInf = PInf"
| "js_round NInf = NInf"
| "js_round _ = NaN"

text \<open>A typed-array or array read: \<open>undefined\<close> past the end.\<close>

definition readAt :: "jsnum list \<Rightarrow> nat \<Rightarrow> jsnum" where
  "readAt xs i = (if i < length xs then xs ! i else Undef)"

section \<open>VisionService: detections from the model's tensors\<close>

record boundingBox =
  box_x :: jsnum
  box_y :: jsnum
  box_width :: jsnum
  box_height :: jsnum

record DetectedObject =
  label :: string
  confidence :: jsnum
  bbox :: boundingBox
  distance :: jsnum

record tensor =
  shape :: "nat list"
  tdata :: "jsnum list"

definition cocoLabels :: "string list" where
  "cocoLabels =
    [''unknown'', ''person'', ''bicycle'', ''car'', ''motorcycle'', ''airplane'', ''bus'',
     ''train'', ''truck'', ''boat'', ''traffic light'', ''fire hydrant'', ''street sign'',
     ''stop sign'', ''parking meter'', ''bench'', ''bird'', ''cat'', ''dog'', ''horse'',
     ''sheep'', ''cow'', ''elephant'', ''bear'', ''zebra'', ''giraffe'', ''hat'',
     ''backpack'', ''umbrella'', ''shoe'', ''eye glasses'', ''handbag'', ''tie'',
     ''suitcase'', ''frisbee'', ''skis'', ''snowboard'', ''sports ball'', ''kite'',
     ''baseball bat'', ''baseball glove'', ''skateboard'', ''surfboard'',
     ''tennis racket'', ''bottle'', ''plate'', ''wine glass'', ''cup'', ''fork'',
     ''knife'', ''spoon'', ''bowl'', ''banana'', ''apple'', ''sandwich'', ''orange'',
     ''broccoli'', ''carrot'', ''hot dog'', ''pizza'', ''donut'', ''cake'', ''chair'',
     ''couch'', ''potted plant'', ''bed'', ''mirror'', ''dining table'', ''window'',
     ''desk'', ''toilet'', ''door'', ''tv'', ''laptop'', ''mouse'', ''remote'',
     ''keyboard'', ''cell phone'', ''microwave'', ''oven'', ''toaster'', ''sink'',
     ''refrigerator'', ''blender'', ''book'', ''clock'', ''vase'', ''scissors'',
     ''teddy bear'', ''hair drier'', ''toothbrush'', ''hair brush'']"

text \<open>
  \<open>cocoLabels[Math.floor(classId)] || 'unknown'\<close>: an index that is not a position of
  the table reads \<open>undefined\<close>, and an empty label would be falsy.
\<close>

definition getClassLabel :: "jsnum \<Rightarrow> string" where
  "getClassLabel classId =
     (case js_floor classId of
        Num r \<Rightarrow>
          (if 0 \<le> r \<and> r < real (length cocoLabels)
           then (let s = cocoLabels ! nat \<lfloor>r\<rfloor> in if s = [] then ''unknown'' else s)
           else ''unknown'')
      | _ \<Rightarrow> ''unknown'')"

definition estimateDistance :: "jsnum \<Rightarrow> jsnum" where
  "estimateDistance objectHeight =
     (let focalLength = Num 600; realHeight = Num 1.7
      in if js_strict_eq objectHeight (Num 0) then Num 10
         else js_div (js_mul realHeight focalLength) (js_mul objectHeight (Num 300)))"

definition confidenceThreshold :: jsnum where
  "confidenceThreshold = Num 0.5"

text \<open>The object pushed for index \<open>i\<close> inside the loop of \<open>processPredictions\<close>.\<close>

definition detectionAt :: "jsnum list \<Rightarrow> jsnum list \<Rightarrow> jsnum list \<Rightarrow> nat \<Rightarrow> DetectedObject" where
  "detectionAt scores boxes classes i =
     (let y1 = readAt boxes (i * 4); x1 = readAt boxes (i * 4 + 1);
          y2 = readAt boxes (i * 4 + 2); x2 = readAt boxes (i * 4 + 3)
      in \<lparr> label = getClassLabel (readAt classes i),
           confidence = readAt scores i,
           bbox = \<lparr> box_x = x1, box_y = y1,
                    box_width = js_sub x2 x1, box_height = js_sub y2 y1 \<rparr>,
           distance = estimateDistance (js_sub y2 y1) \<rparr>)"

text \<open>The \<open>for (let i = 0; i < scores.length; i++)\<close> loop, with the array it pushes to.\<close>

function processLoop ::
  "jsnum list \<Rightarrow> jsnum list \<Rightarrow> jsnum list \<Rightarrow> nat \<Rightarrow> DetectedObject list \<Rightarrow> DetectedObject list"
where
  "processLoop scores boxes classes i detectedObjects =
     (if i < length scores
      then (if js_gt (readAt scores i) confidenceThreshold
            then processLoop scores boxes classes (Suc i)
                   (detectedObjects @ [detectionAt scores boxes classes i])
            else processLoop scores boxes classes (Suc i) detectedObjects)
      else detectedObjects)"
  by pat_completeness auto
termination
  by (relation "measure (\<lambda>(scores, boxes, classes, i, acc). length scores - i)") auto

declare processLoop.simps [simp del]

text \<open>
  The three \<open>predictions.find\<close> calls pick tensors by shape. A tensor object is
  identified by its position in \<open>predictions\<close>, so \<open>t !== scoresTensor\<close> compares
  positions.
\<close>

definition looksLikeScores :: "tensor \<Rightarrow> bool" where
  "looksLikeScores t = (length (shape t) = 2 \<and> shape t ! 1 > 100)"

definition looksLikeBoxes :: "tensor \<Rightarrow> bool" where
  "looksLikeBoxes t = (length (shape t) = 3 \<and> shape t ! 2 = 4)"

definition findIndex :: "(nat \<Rightarrow> bool) \<Rightarrow> nat \<Rightarrow> nat option" where
  "findIndex P n = List.find P [0..<n]"

definition scoresIndex :: "tensor list \<Rightarrow> nat option" where
  "scoresIndex predictions =
     findIndex (\<lambda>k. looksLikeScores (predictions ! k)) (length predictions)"

definition boxesIndex :: "tensor list \<Rightarrow> nat option" where
  "boxesIndex predictions =
     findIndex (\<lambda>k. looksLikeBoxes (predictions ! k)) (length predictions)"

definition classesIndex :: "tensor list \<Rightarrow> nat option" where
  "classesIndex predictions =
     findIndex (\<lambda>k. looksLikeScores (predictions ! k) \<and> Some k \<noteq> scoresIndex predictions)
       (length predictions)"

definition processPredictions :: "tensor list \<Rightarrow> DetectedObject list" where
  "processPredictions predictions =
     (case (scoresIndex predictions, boxesIndex predictions, classesIndex predictions) of
        (Some s, Some b, Some c) \<Rightarrow>
          processLoop (tdata (predictions ! s)) (tdata (predictions ! b))
            (tdata (predictions ! c)) 0 []
      | _ \<Rightarrow> [])"

text \<open>\<open>toLowerCase\<close> on the ASCII letters (labels and questions are ASCII here).\<close>

definition lowerChar :: "char \<Rightarrow> char" where
  "lowerChar c =
     (let n = (of_char c :: nat) in if 65 \<le> n \<and> n \<le> 90 then char_of (n + 32) else c)"

definition toLowerCase :: "string \<Rightarrow> string" where
  "toLowerCase s = map lowerChar s"

definition determineSceneType :: "DetectedObject list \<Rightarrow> string" where
  "determineSceneType objs =
     (let labels = map (\<lambda>obj. toLowerCase (label obj)) objs
      in if list_ex (\<lambda>l. l \<in> set [''car'', ''traffic light'', ''street sign'']) labels
         then ''street''
         else if list_ex (\<lambda>l. l \<in> set [''tree'', ''bench'', ''bicycle'']) labels
         then ''outdoor''
         else if list_ex (\<lambda>l. l \<in> set [''chair'', ''table'', ''couch'']) labels
         then ''indoor''
         else ''unknown'')"

text \<open>\<open>analyzeLighting\<close>, from the data of \<open>imageTensor.mean()\<close>.\<close>

definition analyzeLighting :: "jsnum list \<Rightarrow> string" where
  "analyzeLighting meanBrightness =
     (let brightness = js_div (readAt meanBrightness 0) (Num 255)
      in if js_gt brightness (Num 0.7) then ''bright''
         else if js_gt brightness (Num 0.3) then ''moderate''
         else ''dim'')"

text \<open>
  Printing a number that went through \<open>Math.round\<close>: decimal digits (the exponent
  form JavaScript switches to from \<open>1e21\<close> on is not modelled).
\<close>

fun natToString :: "nat \<Rightarrow> string" where
  "natToString n =
     (if n < 10 then [char_of (48 + n)]
      else natToString (n div 10) @ [char_of (48 + n mod 10)])"

declare natToString.simps [simp del]

definition intToString :: "int \<Rightarrow> string" where
  "intToString k = (if k < 0 then ''-'' @ natToString (nat (- k)) else natToString (nat k))"

definition roundedToString :: "jsnum \<Rightarrow> string" where
  "roundedToString v =
     (case js_round v of
        Num r \<Rightarrow> intToString \<lfloor>r\<rfloor>
      | PInf \<Rightarrow> ''Infinity''
      | NInf \<Rightarrow> ''-Infinity''
      | _ \<Rightarrow> ''NaN'')"

text \<open>\<open>extractDominantColors\<close>, from the data of \<open>imageTensor.mean([0, 1])\<close>.\<close>

definition extractDominantColors :: "jsnum list \<Rightarrow> string list" where
  "extractDominantColors rgbMean =
     [''rgb('' @ roundedToString (readAt rgbMean 0) @ '', ''
        @ roundedToString (readAt rgbMean 1) @ '', ''
        @ roundedToString (readAt rgbMean 2) @ '')'']"

record SceneAnalysis =
  objects :: "DetectedObject list"
  dominantColors :: "string list"
  sceneType :: string
  lightingCondition :: string
  timestamp :: int

section \<open>The world of the module singletons and the platform\<close>

text \<open>
  Every service is a module-level singleton, and the screen keeps \<open>isProcessing\<close> and
  \<open>currentMode\<close> as component state: one record holds them all. The platform (camera,
  model runtime, network, speech, haptics, clock) is an oracle: the \<open>k\<close>-th external
  call of a run gets the outcome the oracle gives at \<open>k\<close>, and \<open>tick\<close> counts the
  calls. \<open>trace\<close> lists what was done, in order: every capture, inference and HTTP
  request that was started, and every speech and haptic call that succeeded. Console
  output is left out.
\<close>

datatype exn = JsError string

datatype mode = SceneMode | TextMode | NavigateMode

datatype ImpactFeedbackStyle = Light | Medium | Heavy

datatype NotificationFeedbackType = NotifySuccess | NotifyError

datatype HapticPattern =
  Object_detected | Text_found | Navigation_cue | Warning | Success | Error

datatype event =
    TakePicture
  | RunInference
  | HttpPost string
  | SpeechStop
  | SpeechSpeak string
  | Impact ImpactFeedbackStyle
  | Notification NotificationFeedbackType
  | Delay nat

text \<open>
  \<open>takePictureAsync\<close> rejects, resolves to nothing, or resolves to a photo whose
  \<open>base64\<close> may be absent.
\<close>

datatype photo_result = CaptureFails | NoPhoto | Photo "string option"

text \<open>
  Decoding the frame and running the model either throws or yields the output tensors
  together with the data of the two \<open>mean\<close> reductions of the image.
\<close>

datatype infer_result = InferFails | Inferred "tensor list" "jsnum list" "jsnum list"

text \<open>
  \<open>fetch\<close> rejects, or resolves to a response with its \<open>ok\<close> flag and its body:
  \<open>None\<close> when the body is not JSON, otherwise the \<open>message.content\<close> of each entry
  of \<open>choices\<close> (\<open>None\<close> where that path does not lead to a string).
\<close>

datatype fetch_result = NetworkFailure | HttpResponse bool "string option list option"

record world =
  isProcessing :: bool
  currentMode :: mode
  cameraPresent :: bool
  visionInitialized :: bool
  ocrInitialized :: bool
  mistralEnabled :: bool
  mistralApiKey :: string
  isSpeaking :: bool
  speechQueue :: "string list"
  hapticEnabled :: bool
  tick :: nat
  trace :: "event list"
  ext_fails :: "nat \<Rightarrow> bool"
  ext_photo :: "nat \<Rightarrow> photo_result"
  ext_infer :: "nat \<Rightarrow> infer_result"
  ext_fetch :: "nat \<Rightarrow> fetch_result"
  ext_now :: "nat \<Rightarrow> int"

type_synonym 'a cmd = "world \<Rightarrow> (exn + 'a) \<times> world"

definition ret :: "'a \<Rightarrow> 'a cmd" where
  "ret v w = (Inr v, w)"

definition throw :: "exn \<Rightarrow> 'a cmd" where
  "throw e w = (Inl e, w)"

definition bnd :: "'a cmd \<Rightarrow> ('a \<Rightarrow> 'b cmd) \<Rightarrow> 'b cmd" where
  "bnd m f w = (case m w of (Inl e, w') \<Rightarrow> (Inl e, w') | (Inr v, w') \<Rightarrow> f v w')"

definition thn :: "'a cmd \<Rightarrow> 'b cmd \<Rightarrow> 'b cmd" where
  "thn m n = bnd m (\<lambda>_. n)"

text \<open>\<open>try { m } catch (e) { h e }\<close>\<close>

definition try_catch :: "'a cmd \<Rightarrow> (exn \<Rightarrow> 'a cmd) \<Rightarrow> 'a cmd" where
  "try_catch m h w = (case m w of (Inl e, w') \<Rightarrow> h e w' | (Inr v, w') \<Rightarrow> (Inr v, w'))"

text \<open>
  \<open>try { m } finally { f }\<close>: \<open>f\<close> runs on every outcome of \<open>m\<close>; the outcome of
  \<open>m\<close> stands unless \<open>f\<close> itself throws.
\<close>

definition try_finally :: "'a cmd \<Rightarrow> unit cmd \<Rightarrow> 'a cmd" where
  "try_finally m f w =
     (case m w of (r, w') \<Rightarrow>
        (case f w' of (Inl e, w'') \<Rightarrow> (Inl e, w'') | (Inr _, w'') \<Rightarrow> (r, w'')))"

text \<open>A platform call that may throw; its effect is recorded when it succeeds.\<close>

definition platformCall :: "event \<Rightarrow> unit cmd" where
  "platformCall ev w =
     (let k = tick w; w' = w\<lparr>tick := Suc k\<rparr>
      in if ext_fails w k then (Inl (JsError ''platform call failed''), w')
         else (Inr (), w'\<lparr>trace := trace w' @ [ev]\<rparr>))"

definition delay :: "nat \<Rightarrow> unit cmd" where
  "delay ms w = (Inr (), w\<lparr>trace := trace w @ [Delay ms]\<rparr>)"

definition dateNow :: "int cmd" where
  "dateNow w = (Inr (ext_now w (tick w)), w\<lparr>tick := Suc (tick w)\<rparr>)"

definition takePictureAsync :: "photo_result cmd" where
  "takePictureAsync w =
     (let k = tick w; w' = w\<lparr>tick := Suc k, trace := trace w @ [TakePicture]\<rparr>
      in case ext_photo w k of
           CaptureFails \<Rightarrow> (Inl (JsError ''capture failed''), w')
         | r \<Rightarrow> (Inr r, w'))"

text \<open>
  \<open>VisionService.analyzeScene\<close>. Decoding, resizing, inference and the reductions are
  one oracle step; whatever they throw is rethrown by the \<open>catch\<close>.
\<close>

definition analyzeScene :: "string \<Rightarrow> SceneAnalysis cmd" where
  "analyzeScene imageBase64 w =
     (if \<not> visionInitialized w then (Inl (JsError ''Vision Service not initialized''), w)
      else
        (let k = tick w; w' = w\<lparr>tick := Suc k, trace := trace w @ [RunInference]\<rparr>
         in case ext_infer w k of
              InferFails \<Rightarrow> (Inl (JsError ''inference failed''), w')
            | Inferred result meanBrightness rgbMean \<Rightarrow>
                (let objs = processPredictions result
                 in bnd dateNow (\<lambda>t. ret
                      \<lparr> objects = objs,
                        dominantColors = extractDominantColors rgbMean,
                        sceneType = determineSceneType objs,
                        lightingCondition = analyzeLighting meanBrightness,
                        timestamp = t \<rparr>) w')))"

section \<open>MistralService: the cloud provider\<close>

datatype source = Mistral | Local | Template

text \<open>
  \<open>MistralResponse\<close> and \<open>LLMResponse\<close> have the same fields; \<open>source\<close> is one of
  the literals \<open>'mistral'\<close>, \<open>'local'\<close>, \<open>'template'\<close>.
\<close>

record LLMResponse =
  r_text :: string
  r_confidence :: real
  processingTime :: int
  r_source :: source

text \<open>
  \<open>String.prototype.trim\<close> strips white space and line terminators. A string is a list
  of code units below 256; of the characters \<open>trim\<close> strips, those are the six ASCII
  ones and the no-break space.
\<close>

definition isWhitespace :: "char \<Rightarrow> bool" where
  "isWhitespace c = ((of_char c :: nat) \<in> {9, 10, 11, 12, 13, 32, 160})"

definition trim :: "string \<Rightarrow> string" where
  "trim s = rev (dropWhile isWhitespace (rev (dropWhile isWhitespace s)))"

definition isAvailable :: "world \<Rightarrow> bool" where
  "isAvailable w = mistralEnabled w"

text \<open>
  \<open>makeRequest\<close>. The request body (prompt, temperature, token limit) only travels to
  the provider, whose reply is the oracle's; the model name is kept in the trace.
\<close>

definition makeRequest :: "string \<Rightarrow> string option list cmd" where
  "makeRequest model w =
     (let k = tick w; w' = w\<lparr>tick := Suc k, trace := trace w @ [HttpPost model]\<rparr>
      in case ext_fetch w k of
           NetworkFailure \<Rightarrow> (Inl (JsError ''Network request failed''), w')
         | HttpResponse ok body \<Rightarrow>
             (if \<not> ok then (Inl (JsError ''Mistral API error''), w')
              else (case body of
                      None \<Rightarrow> (Inl (JsError ''JSON parse error''), w')
                    | Some choices \<Rightarrow> (Inr choices, w'))))"

text \<open>\<open>response.choices[0].message.content\<close> followed by \<open>text.trim()\<close>.\<close>

definition firstChoiceText :: "string option list \<Rightarrow> string cmd" where
  "firstChoiceText choices =
     (case choices of
        Some content # _ \<Rightarrow> ret (trim content)
      | _ \<Rightarrow> throw (JsError ''TypeError''))"

text \<open>
  The four operations: read the clock, refuse when disabled, post the request, take the
  first choice, and stamp the result with the operation's constant. The \<open>catch\<close>
  logs and rethrows.
\<close>

definition generateEnhancedDescription ::
  "DetectedObject list \<Rightarrow> string \<Rightarrow> string \<Rightarrow> string option \<Rightarrow> LLMResponse cmd" where
  "generateEnhancedDescription objs sceneTy lighting detectedText =
     bnd dateNow (\<lambda>startTime w.
       if \<not> isAvailable w then (Inl (JsError ''Mistral Service not available''), w)
       else try_catch
              (bnd (makeRequest ''mistral-small-latest'') (\<lambda>response.
               bnd (firstChoiceText response) (\<lambda>content.
               bnd dateNow (\<lambda>now. ret
                 \<lparr> r_text = content, r_confidence = 0.95,
                   processingTime = now - startTime, r_source = Mistral \<rparr>))))
              (\<lambda>e. throw e) w)"

definition Mistral_generateNavigationGuidance ::
  "string \<Rightarrow> DetectedObject list \<Rightarrow> string \<Rightarrow> LLMResponse cmd" where
  "Mistral_generateNavigationGuidance targetObject currentObjects userIntent =
     bnd dateNow (\<lambda>startTime w.
       if \<not> isAvailable w then (Inl (JsError ''Mistral Service not available''), w)
       else try_catch
              (bnd (makeRequest ''mistral-small-latest'') (\<lambda>response.
               bnd (firstChoiceText response) (\<lambda>content.
               bnd dateNow (\<lambda>now. ret
                 \<lparr> r_text = content, r_confidence = 0.90,
                   processingTime = now - startTime, r_source = Mistral \<rparr>))))
              (\<lambda>e. throw e) w)"

record SceneContext =
  ctx_objects :: "DetectedObject list"
  ctx_text :: "string option"
  ctx_sceneType :: string
  ctx_lightingCondition :: string

definition Mistral_answerQuestion ::
  "string \<Rightarrow> SceneContext \<Rightarrow> LLMResponse cmd" where
  "Mistral_answerQuestion question sceneContext =
     bnd dateNow (\<lambda>startTime w.
       if \<not> isAvailable w then (Inl (JsError ''Mistral Service not available''), w)
       else try_catch
              (bnd (makeRequest ''mistral-small-latest'') (\<lambda>response.
               bnd (firstChoiceText response) (\<lambda>content.
               bnd dateNow (\<lambda>now. ret
                 \<lparr> r_text = content, r_confidence = 0.92,
                   processingTime = now - startTime, r_source = Mistral \<rparr>))))
              (\<lambda>e. throw e) w)"

definition analyzeImageWithVision ::
  "string \<Rightarrow> string \<Rightarrow> LLMResponse cmd" where
  "analyzeImageWithVision imageBase64 mimeType =
     bnd dateNow (\<lambda>startTime w.
       if \<not> isAvailable w then (Inl (JsError ''Mistral Service not available''), w)
       else try_catch
              (bnd (makeRequest ''pixtral-12b-2409'') (\<lambda>response.
               bnd (firstChoiceText response) (\<lambda>content.
               bnd dateNow (\<lambda>now. ret
                 \<lparr> r_text = content, r_confidence = 0.98,
                   processingTime = now - startTime, r_source = Mistral \<rparr>))))
              (\<lambda>e. throw e) w)"

text \<open>
  \<open>initialize\<close> stores the key and enables the service when the key is not empty;
  otherwise its \<open>catch\<close> disables the service and throws.
\<close>

definition Mistral_initialize :: "string \<Rightarrow> unit cmd" where
  "Mistral_initialize apiKey w =
     (if length apiKey > 0
      then (Inr (), w\<lparr>mistralApiKey := apiKey, mistralEnabled := True\<rparr>)
      else (Inl (JsError ''Mistral Service initialization failed''),
            w\<lparr>mistralApiKey := apiKey, mistralEnabled := False\<rparr>))"

definition Mistral_setEnabled :: "bool \<Rightarrow> unit cmd" where
  "Mistral_setEnabled enabled w =
     (Inr (), w\<lparr>mistralEnabled := (enabled \<and> length (mistralApiKey w) > 0)\<rparr>)"

definition getStatus :: "world \<Rightarrow> bool \<times> bool" where
  "getStatus w = (mistralEnabled w, length (mistralApiKey w) > 0)"

section \<open>LLMService: cloud first, local template otherwise\<close>

fun join :: "string \<Rightarrow> string list \<Rightarrow> string" where
  "join sep [] = []"
| "join sep [s] = s"
| "join sep (s # t # ts) = s @ sep @ join sep (t # ts)"

fun js_includes :: "string \<Rightarrow> string \<Rightarrow> bool" where
  "js_includes [] sub = (sub = [])"
| "js_includes (c # cs) sub = (take (length sub) (c # cs) = sub \<or> js_includes cs sub)"

definition closeObjects :: "DetectedObject list \<Rightarrow> DetectedObject list" where
  "closeObjects objs = filter (\<lambda>ob. js_lt (js_or (distance ob) (Num 10)) (Num 2)) objs"

definition farObjects :: "DetectedObject list \<Rightarrow> DetectedObject list" where
  "farObjects objs = filter (\<lambda>ob. js_ge (js_or (distance ob) (Num 10)) (Num 2)) objs"

definition generateTemplateDescription ::
  "DetectedObject list \<Rightarrow> string \<Rightarrow> string \<Rightarrow> string" where
  "generateTemplateDescription objs sceneTy lighting =
     (if length objs = 0
      then ''You appear to be in a '' @ sceneTy @ '' area with '' @ lighting
             @ '' lighting. No specific objects detected nearby.''
      else (''You're in a '' @ sceneTy
              @ '' area with '' @ lighting @ '' lighting. '')
           @ (if length (closeObjects objs) > 0
              then ''Close to you: '' @ join '', '' (map label (closeObjects objs)) @ ''. ''
              else [])
           @ (if length (farObjects objs) > 0
              then ''Further away: '' @ join '', '' (map label (farObjects objs)) @ ''.''
              else []))"

definition generateTemplateNavigation :: "string \<Rightarrow> DetectedObject list \<Rightarrow> string" where
  "generateTemplateNavigation targetObject currentObjects =
     (case List.find (\<lambda>ob. js_includes (toLowerCase (label ob)) (toLowerCase targetObject))
             currentObjects of
        Some target \<Rightarrow>
          targetObject @ '' is approximately ''
            @ roundedToString (js_or (distance target) (Num 5)) @ '' meters ahead of you.''
      | None \<Rightarrow>
          (''I don't see a '')
            @ targetObject @ '' in the current view. Try looking around.'')"

definition generateTemplateAnswer :: "string \<Rightarrow> SceneContext \<Rightarrow> string" where
  "generateTemplateAnswer question sceneContext =
     (let lowerQuestion = toLowerCase question
      in if js_includes lowerQuestion ''what'' \<or> js_includes lowerQuestion ''see''
         then ''I can see '' @ join '', '' (map label (ctx_objects sceneContext))
                @ '' in this '' @ ctx_sceneType sceneContext @ ''.''
         else if js_includes lowerQuestion ''where''
         then (''You're in a '')
                @ ctx_sceneType sceneContext @ '' area.''
         else if js_includes lowerQuestion ''how many''
         then ''I can see '' @ natToString (length (ctx_objects sceneContext)) @ '' objects.''
         else ''I see '' @ natToString (length (ctx_objects sceneContext))
                @ '' objects in this '' @ ctx_sceneType sceneContext @ ''.'')"

text \<open>
  The three public operations. Inside the outer \<open>try\<close> (whose \<open>catch\<close> logs and
  rethrows), the cloud call is tried when the provider is available and its result is
  returned at once (\<open>Some\<close>); when it throws, the inner \<open>catch\<close> swallows the error
  and control falls through to the template.
\<close>

definition generateSceneDescription ::
  "DetectedObject list \<Rightarrow> string \<Rightarrow> string \<Rightarrow> string option \<Rightarrow> LLMResponse cmd" where
  "generateSceneDescription objs sceneTy lighting detectedText =
     bnd dateNow (\<lambda>startTime.
       try_catch
         (bnd (\<lambda>w. if isAvailable w
                    then try_catch (bnd (generateEnhancedDescription objs sceneTy lighting detectedText) (\<lambda>r. ret (Some r)))
                           (\<lambda>mistralError. ret None) w
                    else (Inr None, w))
            (\<lambda>early. case early of
               Some r \<Rightarrow> ret r
             | None \<Rightarrow>
                 bnd dateNow (\<lambda>now. ret
                   \<lparr> r_text = generateTemplateDescription objs sceneTy lighting,
                     r_confidence = 0.85,
                     processingTime = now - startTime, r_source = Template \<rparr>)))
         (\<lambda>e. throw e))"

definition generateNavigationGuidance ::
  "string \<Rightarrow> DetectedObject list \<Rightarrow> string \<Rightarrow> LLMResponse cmd" where
  "generateNavigationGuidance targetObject currentObjects userIntent =
     bnd dateNow (\<lambda>startTime.
       try_catch
         (bnd (\<lambda>w. if isAvailable w
                    then try_catch (bnd (Mistral_generateNavigationGuidance targetObject currentObjects userIntent) (\<lambda>r. ret (Some r)))
                           (\<lambda>mistralError. ret None) w
                    else (Inr None, w))
            (\<lambda>early. case early of
               Some r \<Rightarrow> ret r
             | None \<Rightarrow>
                 bnd dateNow (\<lambda>now. ret
                   \<lparr> r_text = generateTemplateNavigation targetObject currentObjects,
                     r_confidence = 0.80,
                     processingTime = now - startTime, r_source = Template \<rparr>)))
         (\<lambda>e. throw e))"

definition answerQuestion ::
  "string \<Rightarrow> SceneContext \<Rightarrow> LLMResponse cmd" where
  "answerQuestion question sceneContext =
     bnd dateNow (\<lambda>startTime.
       try_catch
         (bnd (\<lambda>w. if isAvailable w
                    then try_catch (bnd (Mistral_answerQuestion question sceneContext) (\<lambda>r. ret (Some r)))
                           (\<lambda>mistralError. ret None) w
                    else (Inr None, w))
            (\<lambda>early. case early of
               Some r \<Rightarrow> ret r
             | None \<Rightarrow>
                 bnd dateNow (\<lambda>now. ret
                   \<lparr> r_text = generateTemplateAnswer question sceneContext,
                     r_confidence = 0.75,
                     processingTime = now - startTime, r_source = Template \<rparr>)))
         (\<lambda>e. throw e))"

section \<open>VoiceService: one utterance at a time, a FIFO queue behind it\<close>

definition stop :: "unit cmd" where
  "stop = thn (platformCall SpeechStop) (\<lambda>w. (Inr (), w\<lparr>isSpeaking := False\<rparr>))"

text \<open>
  \<open>speak\<close> returns once the platform has accepted the utterance; the utterance ends
  later, when the platform calls \<open>onDone\<close> or \<open>onError\<close>.
\<close>

definition speak :: "string \<Rightarrow> bool \<Rightarrow> unit cmd" where
  "speak utterance priority =
     thn (if priority
          then thn stop (\<lambda>w. (Inr (), w\<lparr>speechQueue := []\<rparr>))
          else ret ())
       (\<lambda>w. if isSpeaking w \<and> \<not> priority
            then (Inr (), w\<lparr>speechQueue := speechQueue w @ [utterance]\<rparr>)
            else try_catch (platformCall (SpeechSpeak utterance))
                   (\<lambda>e w'. (Inr (), w'\<lparr>isSpeaking := False\<rparr>))
                   (w\<lparr>isSpeaking := True\<rparr>))"

text \<open>\<open>shift()\<close> takes the head; \<open>if (nextText)\<close> lets only a non-empty string through.\<close>

definition processQueue :: "unit cmd" where
  "processQueue w =
     (if length (speechQueue w) > 0
      then (let nextText = hd (speechQueue w); w' = w\<lparr>speechQueue := tl (speechQueue w)\<rparr>
            in if nextText \<noteq> [] then speak nextText False w' else (Inr (), w'))
      else (Inr (), w))"

definition onDone :: "unit cmd" where
  "onDone = thn (\<lambda>w. (Inr (), w\<lparr>isSpeaking := False\<rparr>)) processQueue"

definition onError :: "unit cmd" where
  "onError = thn (\<lambda>w. (Inr (), w\<lparr>isSpeaking := False\<rparr>)) processQueue"

section \<open>HapticService\<close>

definition impactAsync :: "ImpactFeedbackStyle \<Rightarrow> unit cmd" where
  "impactAsync style = platformCall (Impact style)"

definition notificationAsync :: "NotificationFeedbackType \<Rightarrow> unit cmd" where
  "notificationAsync ty = platformCall (Notification ty)"

definition Haptic_setEnabled :: "bool \<Rightarrow> unit cmd" where
  "Haptic_setEnabled enabled w = (Inr (), w\<lparr>hapticEnabled := enabled\<rparr>)"

text \<open>The \<open>for (let i = 0; i < 3; i++)\<close> loop of the \<open>'warning'\<close> case.\<close>

function warningLoop :: "nat \<Rightarrow> unit cmd" where
  "warningLoop i w =
     (if i < 3
      then (case impactAsync Medium w of
              (Inl e, w1) \<Rightarrow> (Inl e, w1)
            | (Inr _, w1) \<Rightarrow>
                (case delay 150 w1 of
                   (Inl e, w2) \<Rightarrow> (Inl e, w2)
                 | (Inr _, w2) \<Rightarrow> warningLoop (Suc i) w2))
      else (Inr (), w))"
  by pat_completeness auto
termination
  by (relation "measure (\<lambda>(i, w). 3 - i)") auto

declare warningLoop.simps [simp del]

definition trigger :: "HapticPattern \<Rightarrow> unit cmd" where
  "trigger pattern w =
     (if \<not> hapticEnabled w then (Inr (), w)
      else try_catch
             (case pattern of
                Object_detected \<Rightarrow> impactAsync Light
              | Text_found \<Rightarrow> thn (impactAsync Light) (thn (delay 100) (impactAsync Light))
              | Navigation_cue \<Rightarrow> impactAsync Medium
              | Warning \<Rightarrow> warningLoop 0
              | Success \<Rightarrow> notificationAsync NotifySuccess
              | Error \<Rightarrow> notificationAsync NotifyError)
             (\<lambda>e. ret ()) w)"

section \<open>OCRService\<close>

record TextDetection =
  td_text :: string
  td_confidence :: jsnum
  td_boundingBox :: boundingBox

text \<open>\<open>detectText\<close> is a placeholder: it finds nothing.\<close>

definition detectText :: "string \<Rightarrow> TextDetection list cmd" where
  "detectText imageData w =
     (if \<not> ocrInitialized w then (Inl (JsError ''OCR Service not initialized''), w)
      else bnd dateNow (\<lambda>now. ret []) w)"

fun js_abs :: "jsnum \<Rightarrow> jsnum" where
  "js_abs (Num a) = Num \<bar>a\<bar>"
| "js_abs PInf = PInf"
| "js_abs NInf = PInf"
| "js_abs _ = NaN"

definition readingOrder :: "TextDetection \<Rightarrow> TextDetection \<Rightarrow> jsnum" where
  "readingOrder a b =
     (let yDiff = js_sub (box_y (td_boundingBox a)) (box_y (td_boundingBox b))
      in if js_gt (js_abs yDiff) (Num 20) then yDiff
         else js_sub (box_x (td_boundingBox a)) (box_x (td_boundingBox b)))"

text \<open>
  \<open>sort\<close> with that comparator, as a stable insertion sort: an element goes before the
  first one it compares below. The comparator is not transitive (two boxes within 20 of
  each other vertically are ordered by \<open>x\<close>), and for detections on which it is not a
  consistent order the language leaves the result of \<open>sort\<close> to the engine; the
  insertion order is then one of the possible results. \<open>detectText\<close> returns no
  detections, so no cycle reaches such a list.
\<close>

fun insertInOrder :: "TextDetection \<Rightarrow> TextDetection list \<Rightarrow> TextDetection list" where
  "insertInOrder a [] = [a]"
| "insertInOrder a (b # bs) =
     (if js_lt (readingOrder a b) (Num 0) then a # b # bs else b # insertInOrder a bs)"

definition organizeTextForReading :: "TextDetection list \<Rightarrow> string" where
  "organizeTextForReading detections =
     join '' '' (map td_text (foldl (\<lambda>sorted d. insertInOrder d sorted) [] detections))"

section \<open>CameraScreen: the capture cycle\<close>

text \<open>
  \<open>CameraScreen\<close> is a function component. \<open>isProcessing\<close> and \<open>currentMode\<close> come
  from \<open>useState\<close>: the world holds their current values, which \<open>setIsProcessing\<close>
  and \<open>setCurrentMode\<close> replace, and each render binds two constants to the values
  current at that render. The functions declared in the component body
  (\<open>analyzeCurrentFrame\<close>, \<open>handleScreenTap\<close>, the timer's callback) are closures of one
  render and read that render's constants, which are therefore parameters here.
\<close>

record render =
  seenProcessing :: bool
  seenMode :: mode

definition renderOf :: "world \<Rightarrow> render" where
  "renderOf w = \<lparr> seenProcessing = isProcessing w, seenMode = currentMode w \<rparr>"

text \<open>
  The first render: \<open>useState(false)\<close> and \<open>useState('scene')\<close>. The effect that calls
  \<open>initializeServices\<close>, and through it \<open>startContinuousAnalysis\<close>, has an empty
  dependency list, so it runs with the closures of this render only.
\<close>

definition mountRender :: render where
  "mountRender = \<lparr> seenProcessing = False, seenMode = SceneMode \<rparr>"

definition setIsProcessing :: "bool \<Rightarrow> unit cmd" where
  "setIsProcessing b w = (Inr (), w\<lparr>isProcessing := b\<rparr>)"

definition setCurrentMode :: "mode \<Rightarrow> unit cmd" where
  "setCurrentMode m w = (Inr (), w\<lparr>currentMode := m\<rparr>)"

text \<open>\<open>photo.base64\<close> on the first capture: with no photo object the read throws.\<close>

definition base64Of :: "photo_result \<Rightarrow> string option cmd" where
  "base64Of photo =
     (case photo of Photo b \<Rightarrow> ret b | _ \<Rightarrow> throw (JsError ''TypeError''))"

text \<open>The \<open>else\<close> branch of scene mode: the vision model is not loaded.\<close>

definition mistralFallback :: "unit cmd" where
  "mistralFallback w =
     (let mistralStatus = getStatus w
      in if fst mistralStatus \<and> snd mistralStatus \<and> cameraPresent w
         then try_catch
                (bnd takePictureAsync (\<lambda>photo.
                   case photo of
                     Photo (Some b) \<Rightarrow>
                       (if b \<noteq> []
                        then thn (trigger Success)
                               (bnd (analyzeImageWithVision b ''image/jpeg'')
                                  (\<lambda>mistralResponse. speak (r_text mistralResponse) True))
                        else ret ())
                   | _ \<Rightarrow> ret ()))
                (\<lambda>mistralError.
                   speak ''Scene analysis failed. Please check your connection.'' True) w
         else speak ''Vision service unavailable. Please check settings.'' True w)"

text \<open>
  The body of the \<open>try\<close> block of \<open>analyzeCurrentFrame\<close>. In
  \<open>isInitialized() && photo.base64\<close> the photo is read only when the service is
  initialised; an absent or empty \<open>base64\<close> is falsy.
\<close>

definition sceneCycle :: "bool \<Rightarrow> photo_result \<Rightarrow> unit cmd" where
  "sceneCycle speakResult photo w =
     (if visionInitialized w
      then bnd (base64Of photo) (\<lambda>b.
             case b of
               None \<Rightarrow> mistralFallback
             | Some img \<Rightarrow>
                 if img = [] then mistralFallback
                 else bnd (analyzeScene img) (\<lambda>sceneAnalysis.
                        if length (objects sceneAnalysis) > 0
                        then thn (trigger Object_detected)
                               (if speakResult
                                then bnd (generateSceneDescription (objects sceneAnalysis)
                                            (sceneType sceneAnalysis)
                                            (lightingCondition sceneAnalysis) None)
                                       (\<lambda>description. speak (r_text description) True)
                                else ret ())
                        else ret ())) w
      else mistralFallback w)"

definition textCycle :: "bool \<Rightarrow> photo_result \<Rightarrow> unit cmd" where
  "textCycle speakResult photo w =
     (if ocrInitialized w
      then bnd (base64Of photo) (\<lambda>b.
             case b of
               None \<Rightarrow> ret ()
             | Some img \<Rightarrow>
                 if img = [] then ret ()
                 else bnd (detectText img) (\<lambda>detections.
                        if length detections > 0
                        then thn (trigger Text_found)
                               (if speakResult
                                then speak (''Text found: ''
                                              @ organizeTextForReading detections) True
                                else ret ())
                        else if speakResult then speak ''No text detected'' True
                        else ret ())) w
      else (Inr (), w))"

definition cycleBody :: "render \<Rightarrow> bool \<Rightarrow> unit cmd" where
  "cycleBody r speakResult =
     bnd takePictureAsync (\<lambda>photo.
       if seenMode r = SceneMode then sceneCycle speakResult photo
       else if seenMode r = TextMode then textCycle speakResult photo
       else ret ())"

text \<open>The \<open>catch\<close> block.\<close>

definition cycleCatch :: "bool \<Rightarrow> exn \<Rightarrow> unit cmd" where
  "cycleCatch speakResult e =
     (if speakResult
      then thn (speak ''Analysis failed. Please try again'' True) (trigger Error)
      else ret ())"

definition analyzeCurrentFrame :: "render \<Rightarrow> bool \<Rightarrow> unit cmd" where
  "analyzeCurrentFrame r speakResult w =
     (if \<not> cameraPresent w \<or> seenProcessing r then (Inr (), w)
      else thn (setIsProcessing True)
             (try_finally (try_catch (cycleBody r speakResult) (cycleCatch speakResult))
                (setIsProcessing False)) w)"

text \<open>The callback \<open>startContinuousAnalysis\<close> hands to \<open>setInterval\<close>.\<close>

definition intervalCallback :: "render \<Rightarrow> unit cmd" where
  "intervalCallback r =
     (if \<not> seenProcessing r \<and> seenMode r = SceneMode
      then analyzeCurrentFrame r False
      else ret ())"

definition handleScreenTap :: "render \<Rightarrow> unit cmd" where
  "handleScreenTap r = thn (trigger Success) (analyzeCurrentFrame r True)"

definition switchMode :: "mode \<Rightarrow> unit cmd" where
  "switchMode m =
     thn (setCurrentMode m)
       (thn (trigger Success)
          (speak (case m of SceneMode \<Rightarrow> ''Scene description mode''
                          | TextMode \<Rightarrow> ''Text reading mode''
                          | NavigateMode \<Rightarrow> ''Navigation mode'') True))"

subsection \<open>Cycles across turns of the event loop\<close>

text \<open>
  A cycle is an \<open>async\<close> function: it runs over several turns of the event loop, and
  other triggers and renders may arrive in between. Only two pieces of
  \<open>analyzeCurrentFrame\<close> touch the guard: the entry (the test of \<open>cameraRef.current\<close>
  and \<open>isProcessing\<close> followed by \<open>setIsProcessing(true)\<close>, all within one turn) and
  the \<open>finally\<close> block. The scheduler's state is the world, the render whose
  \<open>handleScreenTap\<close> the screen currently holds, and a ghost counter: the number of
  cycles that have entered and not yet run their \<open>finally\<close>.

  \<open>Tap\<close>: a call of \<open>analyzeCurrentFrame\<close> made by the tap handler reaches the guard.
  \<open>Rerender\<close>: the component renders again from the current state, and the screen
  takes the new render's handler. \<open>TimerTick\<close>: the callback given to \<open>setInterval\<close>
  runs; it belongs to the first render and makes its own test of the two constants
  before the call. \<open>CycleSettles\<close>: a cycle in flight runs its \<open>finally\<close>.
\<close>

datatype sched_event = Tap | Rerender | TimerTick | CycleSettles

fun cycleEntry :: "render \<Rightarrow> world \<times> nat \<Rightarrow> world \<times> nat" where
  "cycleEntry r (w, n) =
     (if \<not> cameraPresent w \<or> seenProcessing r then (w, n)
      else (w\<lparr>isProcessing := True\<rparr>, Suc n))"

fun cycleExit :: "world \<times> nat \<Rightarrow> world \<times> nat" where
  "cycleExit (w, n) = (if n = 0 then (w, n) else (w\<lparr>isProcessing := False\<rparr>, n - 1))"

fun step :: "sched_event \<Rightarrow> world \<times> render \<times> nat \<Rightarrow> world \<times> render \<times> nat" where
  "step Tap (w, r, n) = (fst (cycleEntry r (w, n)), r, snd (cycleEntry r (w, n)))"
| "step Rerender (w, r, n) = (w, renderOf w, n)"
| "step TimerTick (w, r, n) =
     (if \<not> seenProcessing mountRender \<and> seenMode mountRender = SceneMode
      then (fst (cycleEntry mountRender (w, n)), r, snd (cycleEntry mountRender (w, n)))
      else (w, r, n))"
| "step CycleSettles (w, r, n) = (fst (cycleExit (w, n)), r, snd (cycleExit (w, n)))"

fun schedule :: "sched_event list \<Rightarrow> world \<times> render \<times> nat \<Rightarrow> world \<times> render \<times> nat" where
  "schedule [] s = s"
| "schedule (ev # evs) s = schedule evs (step ev s)"

text \<open>
  Schedules without the timer in which a render follows every change of the guard
  before the next tap.
\<close>

fun rendersKeepUp :: "sched_event list \<Rightarrow> bool" where
  "rendersKeepUp [] = True"
| "rendersKeepUp (Tap # Rerender # evs) = rendersKeepUp evs"
| "rendersKeepUp (CycleSettles # Rerender # evs) = rendersKeepUp evs"
| "rendersKeepUp (Rerender # evs) = rendersKeepUp evs"
| "rendersKeepUp evs = False"

subsection \<open>A reference world\<close>

text \<open>
  The singletons as their field initialisers leave them (no cycle in flight, scene
  mode, nothing spoken or queued, haptics on, cloud provider off), with camera and
  models ready, on a platform where every call succeeds; the worked examples start
  from it.
\<close>

definition calmWorld :: world where
  "calmWorld =
     \<lparr> isProcessing = False, currentMode = SceneMode, cameraPresent = True,
       visionInitialized = True, ocrInitialized = True,
       mistralEnabled = False, mistralApiKey = ''key'',
       isSpeaking = False, speechQueue = [], hapticEnabled = True,
       tick = 0, trace = [],
       ext_fails = (\<lambda>k. False),
       ext_photo = (\<lambda>k. Photo (Some ''frame'')),
       ext_infer = (\<lambda>k. Inferred [] [] []),
       ext_fetch = (\<lambda>k. HttpResponse True (Some [Some ''A chair is ahead.''])),
       ext_now = (\<lambda>k. int k) \<rparr>"

text \<open>
  The same with the cloud provider enabled and answering every request with status 200
  and one choice whose content is two spaces.
\<close>

definition blankReplyWorld :: world where
  "blankReplyWorld =
     calmWorld\<lparr>mistralEnabled := True,
               ext_fetch := (\<lambda>k. HttpResponse True (Some [Some ''  '']))\<rparr>"

section \<open>The range of doubles\<close>

lemma overflowBound_large: "2 ^ 1023 \<le> overflowBound"
proof -
  have "(2::real) ^ 1024 = 2 ^ 1023 + 2 ^ 1023" by simp
  moreover have "(2::real) ^ 970 \<le> 2 ^ 1023" by (rule power_increasing) simp_all
  ultimately show ?thesis by (simp add: overflowBound_def)
qed

lemma overflowBound_million: "1000000 < overflowBound"
proof -
  have "(1000000::real) < 2 ^ 20" by simp
  also have "(2::real) ^ 20 \<le> 2 ^ 1023" by (rule power_increasing) simp_all
  finally show ?thesis using overflowBound_large by simp
qed

lemma toDouble_small: "\<bar>r\<bar> \<le> 1000000 \<Longrightarrow> toDouble r = Num r"
  using overflowBound_million by (auto simp: toDouble_def)

lemma toDouble_cases:
  "toDouble r = (if overflowBound \<le> \<bar>r\<bar> then (if 0 < r then PInf else NInf) else Num r)"
  using overflowBound_million by (auto simp: toDouble_def)

section \<open>Detector: the distance estimate\<close>

lemma estimateDistance_Num:
  "estimateDistance (Num h) =
     (if h = 0 then Num 10
      else if overflowBound \<le> \<bar>h * 300\<bar> then Num 0
      else if overflowBound \<le> \<bar>(1.7 * 600) / (h * 300)\<bar> then (if 0 < h then PInf else NInf)
      else Num ((1.7 * 600) / (h * 300)))"
proof -
  have n: "toDouble (1.7 * 600) = Num 1020" by (simp add: toDouble_small)
  show ?thesis
    using overflowBound_million
    by (auto simp: estimateDistance_def Let_def n toDouble_cases zero_less_divide_iff
        split: if_splits)
qed

lemma divisor_not_zero:
  "\<not> js_strict_eq x (Num 0) \<Longrightarrow> js_mul x (Num 300) \<noteq> Num 0"
  by (cases x) (auto simp: toDouble_def)

lemma estimateDistance_finite_iff:
  "(\<exists>r. estimateDistance x = Num r) \<longleftrightarrow>
     (case x of Num h \<Rightarrow> h = 0 \<or> (1.7 * 600) / (300 * overflowBound) < \<bar>h\<bar>
              | PInf \<Rightarrow> True | NInf \<Rightarrow> True | NaN \<Rightarrow> False | Undef \<Rightarrow> False)"
proof (cases x)
  case (Num h)
  have B: "0 < overflowBound" using overflowBound_million by simp
  show ?thesis
  proof (cases "h = 0")
    case True
    with Num show ?thesis by (simp add: estimateDistance_Num)
  next
    case False
    then have h: "0 < \<bar>h\<bar>" by simp
    have k: "overflowBound \<le> \<bar>(1.7 * 600) / (h * 300)\<bar>
               \<longleftrightarrow> \<not> (1.7 * 600) / (300 * overflowBound) < \<bar>h\<bar>"
      using h B by (auto simp: abs_mult field_simps)
    have big: "overflowBound \<le> \<bar>h * 300\<bar> \<Longrightarrow> (1.7 * 600) / (300 * overflowBound) < \<bar>h\<bar>"
    proof -
      assume a: "overflowBound \<le> \<bar>h * 300\<bar>"
      have "(1.7 * 600) / (300 * overflowBound) < 1" using overflowBound_million B
        by (simp add: field_simps)
      moreover have "1 < \<bar>h\<bar>" using a overflowBound_million by (simp add: abs_mult)
      ultimately show ?thesis by linarith
    qed
    have "(\<exists>r. estimateDistance (Num h) = Num r)
            \<longleftrightarrow> (1.7 * 600) / (300 * overflowBound) < \<bar>h\<bar>"
    proof (cases "overflowBound \<le> \<bar>h * 300\<bar>")
      case True
      then have "estimateDistance (Num h) = Num 0"
        using False by (simp only: estimateDistance_Num if_True if_False)
      with big [OF True] show ?thesis by simp
    next
      case F2: False
      show ?thesis
      proof (cases "overflowBound \<le> \<bar>(1.7 * 600) / (h * 300)\<bar>")
        case True
        then have "estimateDistance (Num h) = (if 0 < h then PInf else NInf)"
          using False F2 by (simp only: estimateDistance_Num if_True if_False)
        then have "\<not> (\<exists>r. estimateDistance (Num h) = Num r)" by simp
        with True k show ?thesis by blast
      next
        case F3: False
        then have "estimateDistance (Num h) = Num ((1.7 * 600) / (h * 300))"
          using False F2 by (simp only: estimateDistance_Num if_True if_False)
        then have "\<exists>r. estimateDistance (Num h) = Num r" by blast
        with F3 k show ?thesis by blast
      qed
    qed
    with Num False show ?thesis by simp
  qed
qed (simp_all add: estimateDistance_def toDouble_small)

text \<open>
  Heights between \<open>2^-149\<close> and \<open>2^129\<close> in magnitude: every non-zero difference of two
  finite single-precision numbers lies there.
\<close>

lemma estimateDistance_single_precision:
  assumes "1 / 2 ^ 149 \<le> \<bar>h\<bar>" "\<bar>h\<bar> \<le> 2 ^ 129"
  shows "estimateDistance (Num h) = Num ((1.7 * 600) / (h * 300))"
proof -
  have h0: "h \<noteq> 0" using assms(1) by auto
  have p: "(0::real) < 2 ^ 149" by simp
  have a: "\<bar>h * 300\<bar> \<le> 2 ^ 9 * 2 ^ 129"
    using assms(2) by (simp add: abs_mult)
  have "(2::real) ^ 9 * 2 ^ 129 = 2 ^ 138" by (simp flip: power_add)
  also have "(2::real) ^ 138 < 2 ^ 1023" by (rule power_strict_increasing) simp_all
  finally have a': "\<bar>h * 300\<bar> < overflowBound" using a overflowBound_large by linarith
  have "\<bar>(1.7 * 600) / (h * 300)\<bar> = (17 / 5) / \<bar>h\<bar>" by (simp add: abs_mult)
  also have "\<dots> \<le> (17 / 5) * 2 ^ 149"
  proof -
    have "1 / \<bar>h\<bar> \<le> 2 ^ 149" using assms(1) h0 p
      by (simp add: field_simps)
    then show ?thesis by (simp add: field_simps)
  qed
  also have "\<dots> \<le> 2 ^ 2 * 2 ^ 149" by simp
  also have "(2::real) ^ 2 * 2 ^ 149 = 2 ^ 151" by (simp flip: power_add)
  also have "(2::real) ^ 151 < 2 ^ 1023" by (rule power_strict_increasing) simp_all
  finally have b: "\<bar>(1.7 * 600) / (h * 300)\<bar> < overflowBound"
    using overflowBound_large by linarith
  show ?thesis using h0 a' b by (simp add: estimateDistance_Num)
qed

text \<open>The smallest positive double, \<open>5e-324\<close>.\<close>

lemma estimateDistance_smallest_double: "estimateDistance (Num (1 / 2 ^ 1074)) = PInf"
proof -
  have B: "overflowBound \<le> 2 ^ 1024" by (simp add: overflowBound_def)
  have "\<bar>1 / 2 ^ 1074 * 300\<bar> \<le> (1::real)"
    by (simp add: field_simps)
  then have a: "\<not> overflowBound \<le> \<bar>1 / 2 ^ 1074 * 300\<bar>"
    using overflowBound_million by linarith
  have "(2::real) ^ 1024 \<le> 2 ^ 1074" by (rule power_increasing) simp_all
  also have "\<dots> \<le> (17/5) * 2 ^ 1074" by simp
  also have "\<dots> = \<bar>(1.7 * 600) / (1 / 2 ^ 1074 * 300)\<bar>" by simp
  finally have b: "overflowBound \<le> \<bar>(1.7 * 600) / (1 / 2 ^ 1074 * 300)\<bar>"
    using B by linarith
  show ?thesis unfolding estimateDistance_Num using a b by simp
qed

section \<open>Detector: the loop as a filter\<close>

lemma processLoop_filter:
  "processLoop scores boxes classes i acc =
     acc @ map (detectionAt scores boxes classes)
             (filter (\<lambda>k. js_gt (readAt scores k) confidenceThreshold) [i..<length scores])"
proof (induction scores boxes classes i acc rule: processLoop.induct)
  case (1 scores boxes classes i acc)
  show ?case
  proof (cases "i < length scores")
    case True
    then have u: "[i..<length scores] = i # [Suc i..<length scores]"
      by (simp add: upt_conv_Cons)
    from True 1 show ?thesis
      by (subst processLoop.simps) (simp add: u)
  next
    case False
    then show ?thesis by (subst processLoop.simps) simp
  qed
qed

lemma processPredictions_found:
  assumes "scoresIndex ps = Some s" "boxesIndex ps = Some b" "classesIndex ps = Some c"
  shows "processPredictions ps =
           map (detectionAt (tdata (ps ! s)) (tdata (ps ! b)) (tdata (ps ! c)))
             (filter (\<lambda>k. js_gt (readAt (tdata (ps ! s)) k) confidenceThreshold)
                [0..<length (tdata (ps ! s))])"
  using assms by (simp add: processPredictions_def processLoop_filter)

lemma confidence_detectionAt: "confidence (detectionAt scores boxes classes i) = readAt scores i"
  by (simp add: detectionAt_def Let_def)

lemma bbox_detectionAt:
  "bbox (detectionAt scores boxes classes i) =
     \<lparr> box_x = readAt boxes (i * 4 + 1), box_y = readAt boxes (i * 4),
       box_width = js_sub (readAt boxes (i * 4 + 3)) (readAt boxes (i * 4 + 1)),
       box_height = js_sub (readAt boxes (i * 4 + 2)) (readAt boxes (i * 4)) \<rparr>"
  by (simp add: detectionAt_def Let_def)

lemma filter_only_first:
  assumes "\<And>k. 0 < k \<Longrightarrow> k < n \<Longrightarrow> \<not> P k" "0 < n"
  shows "filter P [0..<n] = (if P 0 then [0] else [])"
proof -
  have "[0..<n] = 0 # [Suc 0..<n]" using assms(2) by (simp add: upt_conv_Cons)
  moreover have "filter P [Suc 0..<n] = []"
    using assms(1) by (auto simp: filter_empty_conv)
  ultimately show ?thesis by simp
qed

text \<open>
  A model output in the order boxes, scores, classes with 101 candidates, of which only
  the first has a score that is not 0.
\<close>

lemma upt_3: "[0..<3] = [0, Suc 0, Suc (Suc 0)]"
  by (simp add: numeral_3_eq_3 upt_conv_Cons)

lemma single_candidate_scores:
  "scoresIndex
     [\<lparr>shape = [1, 101, 4], tdata = [y1, x1, y2, x2] @ replicate 400 (Num 0)\<rparr>,
      \<lparr>shape = [1, 101], tdata = sc # replicate 100 (Num 0)\<rparr>,
      \<lparr>shape = [1, 101], tdata = cl # replicate 100 (Num 0)\<rparr>] = Some 1"
  by (simp add: scoresIndex_def findIndex_def looksLikeScores_def upt_3)

lemma single_candidate_boxes:
  "boxesIndex
     [\<lparr>shape = [1, 101, 4], tdata = [y1, x1, y2, x2] @ replicate 400 (Num 0)\<rparr>,
      \<lparr>shape = [1, 101], tdata = sc # replicate 100 (Num 0)\<rparr>,
      \<lparr>shape = [1, 101], tdata = cl # replicate 100 (Num 0)\<rparr>] = Some 0"
  by (simp add: boxesIndex_def findIndex_def looksLikeBoxes_def upt_3)

lemma single_candidate_classes:
  "classesIndex
     [\<lparr>shape = [1, 101, 4], tdata = [y1, x1, y2, x2] @ replicate 400 (Num 0)\<rparr>,
      \<lparr>shape = [1, 101], tdata = sc # replicate 100 (Num 0)\<rparr>,
      \<lparr>shape = [1, 101], tdata = cl # replicate 100 (Num 0)\<rparr>] = Some 2"
  using single_candidate_scores [of y1 x1 y2 x2 sc cl]
  by (simp add: classesIndex_def findIndex_def looksLikeScores_def upt_3)

lemma single_candidate:
  "processPredictions
     [\<lparr>shape = [1, 101, 4], tdata = [y1, x1, y2, x2] @ replicate 400 (Num 0)\<rparr>,
      \<lparr>shape = [1, 101], tdata = sc # replicate 100 (Num 0)\<rparr>,
      \<lparr>shape = [1, 101], tdata = cl # replicate 100 (Num 0)\<rparr>] =
   (if js_gt sc confidenceThreshold
    then [\<lparr>label = getClassLabel cl, confidence = sc,
           bbox = \<lparr>box_x = x1, box_y = y1, box_width = js_sub x2 x1,
                   box_height = js_sub y2 y1\<rparr>,
           distance = estimateDistance (js_sub y2 y1)\<rparr>]
    else [])"
proof -
  have f: "filter (\<lambda>k. js_gt (readAt (sc # replicate 100 (Num 0)) k) confidenceThreshold)
             [0..<101]
           = (if js_gt sc confidenceThreshold then [0] else [])"
    by (subst filter_only_first)
       (auto simp: readAt_def nth_Cons' js_gt_def confidenceThreshold_def)
  show ?thesis
    apply (subst processPredictions_found
             [OF single_candidate_scores single_candidate_boxes single_candidate_classes])
    apply (simp add: f)
    apply (simp add: detectionAt_def readAt_def)
    done
qed

lemma label_person: "getClassLabel (Num 1) = ''person''"
  by (simp add: getClassLabel_def cocoLabels_def)

section \<open>Detector: the claims\<close>

text \<open>
  C5, as stated, fails for two kinds of height. For the smallest positive double the
  quotient leaves the range of doubles and the estimate is \<open>Infinity\<close>. And the height
  \<open>processPredictions\<close> passes is \<open>y2 - y1\<close>, which is \<open>NaN\<close> when both coordinates
  are infinite: the detection is emitted with distance \<open>NaN\<close>.
\<close>

theorem estimateDistance_not_finite_counterexample:
  "estimateDistance (Num (1 / 2 ^ 1074)) = PInf
   \<and> map distance (processPredictions
       [\<lparr>shape = [1, 101, 4],
         tdata = [PInf, Num 0.1, PInf, Num 0.4] @ replicate 400 (Num 0)\<rparr>,
        \<lparr>shape = [1, 101], tdata = Num 0.9 # replicate 100 (Num 0)\<rparr>,
        \<lparr>shape = [1, 101], tdata = Num 1 # replicate 100 (Num 0)\<rparr>]) = [NaN]"
  unfolding single_candidate estimateDistance_smallest_double
  by (simp add: js_gt_def confidenceThreshold_def estimateDistance_def toDouble_small)

text \<open>
  C5, amended. At height 0 \<open>estimateDistance\<close> returns the fixed fallback 10, and
  otherwise \<open>(1.7 * 600) / (h * 300)\<close> in double arithmetic; the divisor it reaches is
  never zero. The result is a finite number exactly for height 0, for an infinite
  height (the estimate is 0), and for a finite height of magnitude above
  \<open>(1.7 * 600) / (300 * (2^1024 - 2^970))\<close>, about \<open>1.9e-308\<close>; that includes every
  height from \<open>2^-149\<close> to \<open>2^129\<close> in magnitude, so every non-zero difference of two
  finite single-precision coordinates. For a smaller non-zero height the result is the
  infinity of its sign, and for a height that is \<open>NaN\<close> or \<open>undefined\<close> it is \<open>NaN\<close>.
\<close>

theorem estimateDistance_by_height:
  "estimateDistance (Num h) =
     (if h = 0 then Num 10
      else if overflowBound \<le> \<bar>h * 300\<bar> then Num 0
      else if overflowBound \<le> \<bar>(1.7 * 600) / (h * 300)\<bar> then (if 0 < h then PInf else NInf)
      else Num ((1.7 * 600) / (h * 300)))
   \<and> (\<not> js_strict_eq x (Num 0) \<longrightarrow> js_mul x (Num 300) \<noteq> Num 0)
   \<and> (1 / 2 ^ 149 \<le> \<bar>h\<bar> \<and> \<bar>h\<bar> \<le> 2 ^ 129
        \<longrightarrow> estimateDistance (Num h) = Num ((1.7 * 600) / (h * 300)))
   \<and> estimateDistance PInf = Num 0 \<and> estimateDistance NInf = Num 0
   \<and> estimateDistance NaN = NaN \<and> estimateDistance Undef = NaN
   \<and> ((\<exists>r. estimateDistance x = Num r) \<longleftrightarrow>
        (case x of Num k \<Rightarrow> k = 0 \<or> (1.7 * 600) / (300 * overflowBound) < \<bar>k\<bar>
                 | PInf \<Rightarrow> True | NInf \<Rightarrow> True | NaN \<Rightarrow> False | Undef \<Rightarrow> False))"
proof -
  have inf: "estimateDistance PInf = Num 0" "estimateDistance NInf = Num 0"
    and nan: "estimateDistance NaN = NaN" "estimateDistance Undef = NaN"
    by (simp_all add: estimateDistance_def toDouble_small)
  from estimateDistance_Num divisor_not_zero estimateDistance_single_precision inf nan
    estimateDistance_finite_iff
  show ?thesis by (intro conjI impI) auto
qed

text \<open>At height 0 the fallback, at height one half 6.8 metres, and a non-zero divisor.\<close>

theorem estimateDistance_by_height_witness:
  "estimateDistance (Num 0) = Num 10
   \<and> \<not> js_strict_eq (Num (1 / 2)) (Num 0) \<and> js_mul (Num (1 / 2)) (Num 300) \<noteq> Num 0
   \<and> 1 / 2 ^ 149 \<le> \<bar>1 / 2 :: real\<bar> \<and> \<bar>1 / 2 :: real\<bar> \<le> 2 ^ 129
   \<and> estimateDistance (Num (1 / 2)) = Num (34 / 5)"
proof -
  have z: "estimateDistance (Num 0) = Num 10"
    using estimateDistance_by_height [of 0, THEN conjunct1] by simp
  have n: "\<not> js_strict_eq (Num (1 / 2)) (Num 0)" by simp
  have r: "1 / 2 ^ 149 \<le> \<bar>1 / 2 :: real\<bar> \<and> \<bar>1 / 2 :: real\<bar> \<le> 2 ^ 129" by simp
  have d: "js_mul (Num (1 / 2)) (Num 300) \<noteq> Num 0"
    using estimateDistance_by_height [of "1 / 2" "Num (1 / 2)", THEN conjunct2, THEN conjunct1] n
    by blast
  have e: "estimateDistance (Num (1 / 2)) = Num (34 / 5)"
    using estimateDistance_by_height
            [of "1 / 2" "Num (1 / 2)", THEN conjunct2, THEN conjunct2, THEN conjunct1] r
    by simp
  from z n d r e show ?thesis by (intro conjI) simp_all
qed

text \<open>
  C1, as stated, fails at the boundary: a candidate whose score is exactly 0.5 satisfies
  \<open>c \<ge> 0.5\<close> and is not in the output, because the loop tests
  \<open>scores[i] > confidenceThreshold\<close>.
\<close>

theorem processPredictions_boundary_counterexample:
  "js_ge (Num (1 / 2)) (Num 0.5)
   \<and> processPredictions
       [\<lparr>shape = [1, 101, 4],
         tdata = [Num 0.1, Num 0.1, Num 0.6, Num 0.6] @ replicate 400 (Num 0)\<rparr>,
        \<lparr>shape = [1, 101], tdata = Num (1 / 2) # replicate 100 (Num 0)\<rparr>,
        \<lparr>shape = [1, 101], tdata = Num 1 # replicate 100 (Num 0)\<rparr>] = []"
  unfolding single_candidate by (simp add: js_gt_def js_ge_def confidenceThreshold_def)

text \<open>
  C1, amended. When the three tensors are found by shape, the output is the sequence of
  candidates whose score is strictly greater than 0.5, in the model's order: the
  candidate at index \<open>i\<close> is in the output if and only if \<open>scores[i] > 0.5\<close>. A score
  of exactly 0.5 is excluded, as is 0.499.
\<close>

theorem processPredictions_strict_threshold:
  assumes "scoresIndex ps = Some s" and "boxesIndex ps = Some b"
    and "classesIndex ps = Some c"
  shows "processPredictions ps =
           map (detectionAt (tdata (ps ! s)) (tdata (ps ! b)) (tdata (ps ! c)))
             (filter (\<lambda>i. js_gt (readAt (tdata (ps ! s)) i) (Num 0.5))
                [0..<length (tdata (ps ! s))])
         \<and> (\<forall>i < length (tdata (ps ! s)).
               (detectionAt (tdata (ps ! s)) (tdata (ps ! b)) (tdata (ps ! c)) i
                  \<in> set (processPredictions ps))
               = js_gt (tdata (ps ! s) ! i) (Num 0.5))
         \<and> \<not> js_gt (Num 0.5) (Num 0.5) \<and> \<not> js_gt (Num 0.499) (Num 0.5)"
proof -
  let ?S = "tdata (ps ! s)" and ?B = "tdata (ps ! b)" and ?C = "tdata (ps ! c)"
  let ?P = "\<lambda>i. js_gt (readAt ?S i) (Num 0.5)"
  have out: "processPredictions ps = map (detectionAt ?S ?B ?C) (filter ?P [0..<length ?S])"
    using processPredictions_found [OF assms] by (simp add: confidenceThreshold_def)
  have mem: "(detectionAt ?S ?B ?C i \<in> set (processPredictions ps)) = js_gt (?S ! i) (Num 0.5)"
    if i: "i < length ?S" for i
  proof
    assume "detectionAt ?S ?B ?C i \<in> set (processPredictions ps)"
    then obtain k where k: "?P k" and eq: "detectionAt ?S ?B ?C k = detectionAt ?S ?B ?C i"
      unfolding out by auto
    from eq have "confidence (detectionAt ?S ?B ?C k) = confidence (detectionAt ?S ?B ?C i)"
      by simp
    then have "readAt ?S k = readAt ?S i" by (simp add: confidence_detectionAt)
    with k i show "js_gt (?S ! i) (Num 0.5)" by (simp add: readAt_def)
  next
    assume "js_gt (?S ! i) (Num 0.5)"
    with i have "i \<in> set (filter ?P [0..<length ?S])" by (simp add: readAt_def)
    then show "detectionAt ?S ?B ?C i \<in> set (processPredictions ps)"
      unfolding out by simp
  qed
  have "\<not> js_gt (Num 0.5) (Num 0.5)" "\<not> js_gt (Num 0.499) (Num 0.5)"
    by (simp_all add: js_gt_def)
  with out mem show ?thesis by blast
qed

text \<open>
  A single candidate with score 0.9: the three tensors are found, and the candidate at
  index 0 is in the output since 0.9 > 0.5.
\<close>

theorem processPredictions_strict_threshold_witness:
  "scoresIndex
     [\<lparr>shape = [1, 101, 4],
       tdata = [Num 0.1, Num 0.1, Num 0.6, Num 0.6] @ replicate 400 (Num 0)\<rparr>,
      \<lparr>shape = [1, 101], tdata = Num 0.9 # replicate 100 (Num 0)\<rparr>,
      \<lparr>shape = [1, 101], tdata = Num 1 # replicate 100 (Num 0)\<rparr>] = Some 1
   \<and> detectionAt (Num 0.9 # replicate 100 (Num 0))
        ([Num 0.1, Num 0.1, Num 0.6, Num 0.6] @ replicate 400 (Num 0))
        (Num 1 # replicate 100 (Num 0)) 0
      \<in> set (processPredictions
          [\<lparr>shape = [1, 101, 4],
            tdata = [Num 0.1, Num 0.1, Num 0.6, Num 0.6] @ replicate 400 (Num 0)\<rparr>,
           \<lparr>shape = [1, 101], tdata = Num 0.9 # replicate 100 (Num 0)\<rparr>,
           \<lparr>shape = [1, 101], tdata = Num 1 # replicate 100 (Num 0)\<rparr>])"
proof -
  note t = processPredictions_strict_threshold
             [OF single_candidate_scores
                   [of "Num 0.1" "Num 0.1" "Num 0.6" "Num 0.6" "Num 0.9" "Num 1"]
                 single_candidate_boxes single_candidate_classes]
  from t [THEN conjunct2, THEN conjunct1, rule_format, of 0]
    single_candidate_scores [of "Num 0.1" "Num 0.1" "Num 0.6" "Num 0.6" "Num 0.9" "Num 1"]
  show ?thesis
    by (simp add: js_gt_def)
qed

text \<open>
  C4, as stated, fails on a malformed box: with \<open>(y1, x1, y2, x2) = (0.5, 0.5, 0.2, 0.2)\<close>
  and score 0.9 the detection carries width and height \<open>-0.3\<close> (and a negative
  distance); nothing clamps them.
\<close>

theorem boundingBox_negative_counterexample:
  "processPredictions
     [\<lparr>shape = [1, 101, 4],
       tdata = [Num 0.5, Num 0.5, Num 0.2, Num 0.2] @ replicate 400 (Num 0)\<rparr>,
      \<lparr>shape = [1, 101], tdata = Num 0.9 # replicate 100 (Num 0)\<rparr>,
      \<lparr>shape = [1, 101], tdata = Num 1 # replicate 100 (Num 0)\<rparr>]
   = [\<lparr>label = ''person'', confidence = Num 0.9,
       bbox = \<lparr>box_x = Num 0.5, box_y = Num 0.5,
               box_width = Num (- 0.3), box_height = Num (- 0.3)\<rparr>,
       distance = Num (- (34 / 3))\<rparr>]
   \<and> \<not> js_ge (Num (- 0.3)) (Num 0)"
  unfolding single_candidate
  by (simp add: js_gt_def js_ge_def confidenceThreshold_def label_person estimateDistance_def
        toDouble_small)

text \<open>
  C4, amended. When the three tensors are found by shape, every candidate that passes
  the threshold is emitted with \<open>x = x1\<close>, \<open>y = y1\<close>, \<open>width = x2 - x1\<close> and
  \<open>height = y2 - y1\<close>, unclamped, and the output holds nothing else; for finite
  coordinates the width is at least 0 exactly when \<open>x1 \<le> x2\<close> (likewise the height).
  \<open>processPredictions\<close> has no failing outcome: no error is raised.
\<close>

theorem boundingBox_unclamped:
  assumes "scoresIndex ps = Some s" and "boxesIndex ps = Some b"
    and "classesIndex ps = Some c"
  shows "(\<forall>i < length (tdata (ps ! s)). js_gt (tdata (ps ! s) ! i) (Num 0.5) \<longrightarrow>
            detectionAt (tdata (ps ! s)) (tdata (ps ! b)) (tdata (ps ! c)) i
              \<in> set (processPredictions ps)
            \<and> bbox (detectionAt (tdata (ps ! s)) (tdata (ps ! b)) (tdata (ps ! c)) i) =
                \<lparr> box_x = readAt (tdata (ps ! b)) (i * 4 + 1),
                  box_y = readAt (tdata (ps ! b)) (i * 4),
                  box_width = js_sub (readAt (tdata (ps ! b)) (i * 4 + 3))
                                (readAt (tdata (ps ! b)) (i * 4 + 1)),
                  box_height = js_sub (readAt (tdata (ps ! b)) (i * 4 + 2))
                                 (readAt (tdata (ps ! b)) (i * 4)) \<rparr>)
         \<and> (\<forall>d \<in> set (processPredictions ps). \<exists>i < length (tdata (ps ! s)).
               js_gt (tdata (ps ! s) ! i) (Num 0.5)
               \<and> d = detectionAt (tdata (ps ! s)) (tdata (ps ! b)) (tdata (ps ! c)) i)
         \<and> js_sub (Num p2) (Num p1) = Num (p2 - p1)
         \<and> js_ge (Num (p2 - p1)) (Num 0) = (p1 \<le> p2)"
proof -
  let ?S = "tdata (ps ! s)" and ?B = "tdata (ps ! b)" and ?C = "tdata (ps ! c)"
  let ?P = "\<lambda>i. js_gt (readAt ?S i) (Num 0.5)"
  have out: "processPredictions ps = map (detectionAt ?S ?B ?C) (filter ?P [0..<length ?S])"
    using processPredictions_found [OF assms] by (simp add: confidenceThreshold_def)
  have fwd: "detectionAt ?S ?B ?C i \<in> set (processPredictions ps)"
    if "i < length ?S" "js_gt (?S ! i) (Num 0.5)" for i
    using that unfolding out by (simp add: readAt_def)
  have bwd: "\<exists>i < length ?S. js_gt (?S ! i) (Num 0.5) \<and> d = detectionAt ?S ?B ?C i"
    if "d \<in> set (processPredictions ps)" for d
    using that unfolding out by (auto simp: readAt_def)
  have fin: "js_ge (Num (p2 - p1)) (Num 0) = (p1 \<le> p2)"
    by (auto simp: js_ge_def js_gt_def)
  from fwd bwd fin show ?thesis
    by (simp add: bbox_detectionAt)
qed

text \<open>The malformed box again: the candidate is emitted with width and height \<open>-0.3\<close>.\<close>

theorem boundingBox_unclamped_witness:
  "boxesIndex
     [\<lparr>shape = [1, 101, 4],
       tdata = [Num 0.5, Num 0.5, Num 0.2, Num 0.2] @ replicate 400 (Num 0)\<rparr>,
      \<lparr>shape = [1, 101], tdata = Num 0.9 # replicate 100 (Num 0)\<rparr>,
      \<lparr>shape = [1, 101], tdata = Num 1 # replicate 100 (Num 0)\<rparr>] = Some 0
   \<and> js_gt (Num 0.9) (Num 0.5)
   \<and> bbox (detectionAt (Num 0.9 # replicate 100 (Num 0))
             ([Num 0.5, Num 0.5, Num 0.2, Num 0.2] @ replicate 400 (Num 0))
             (Num 1 # replicate 100 (Num 0)) 0)
      = \<lparr>box_x = Num 0.5, box_y = Num 0.5,
         box_width = Num (- 0.3), box_height = Num (- 0.3)\<rparr>"
proof -
  note t = boundingBox_unclamped
             [OF single_candidate_scores
                   [of "Num 0.5" "Num 0.5" "Num 0.2" "Num 0.2" "Num 0.9" "Num 1"]
                 single_candidate_boxes single_candidate_classes, of 0 0]
  from t [THEN conjunct1, rule_format, of 0]
    single_candidate_boxes [of "Num 0.5" "Num 0.5" "Num 0.2" "Num 0.2" "Num 0.9" "Num 1"]
  show ?thesis
    by (simp add: js_gt_def readAt_def)
qed

section \<open>Narration: the fallback chain\<close>

lemmas monad_defs = ret_def throw_def bnd_def thn_def try_catch_def

lemma trim_reply: "trim ''A chair is ahead.'' = ''A chair is ahead.''"
  by (simp add: trim_def isWhitespace_def)

lemma chair_and_couch:
  "generateTemplateDescription
     [\<lparr>label = ''chair'', confidence = c1, bbox = b1, distance = Num 1.5\<rparr>,
      \<lparr>label = ''couch'', confidence = c2, bbox = b2, distance = Num 4\<rparr>] sceneTy lighting =
   ''You're in a '' @ sceneTy @ '' area with ''
     @ lighting @ '' lighting. Close to you: chair. Further away: couch.''"
  by (simp add: generateTemplateDescription_def closeObjects_def farObjects_def
        js_or_def js_ge_def js_gt_def)

text \<open>
  What makes the cloud call of the scene description fail while the provider is
  enabled: a rejected request, a response that is not \<open>ok\<close>, a body that is not JSON,
  or a body without a string at \<open>choices[0].message.content\<close>. On the way to the
  fallback the request is posted once.
\<close>

lemma generateEnhancedDescription_fails_iff:
  "isAvailable w \<Longrightarrow>
   isl (fst (generateEnhancedDescription objs sceneTy lighting detectedText w)) =
     (case ext_fetch w (Suc (tick w)) of
        NetworkFailure \<Rightarrow> True
      | HttpResponse ok body \<Rightarrow>
          \<not> ok \<or> (case body of
                     None \<Rightarrow> True
                   | Some choices \<Rightarrow>
                       (case choices of Some content # _ \<Rightarrow> False | _ \<Rightarrow> True)))"
  by (auto simp: generateEnhancedDescription_def dateNow_def monad_defs makeRequest_def
        firstChoiceText_def isAvailable_def Let_def
        split: fetch_result.splits option.splits list.splits prod.splits sum.splits)

lemma fallback_posts_once:
  "isAvailable w \<Longrightarrow>
   isl (fst (generateEnhancedDescription objs sceneTy lighting detectedText
              (snd (dateNow w)))) \<Longrightarrow>
   trace (snd (generateSceneDescription objs sceneTy lighting detectedText w)) =
     trace w @ [HttpPost ''mistral-small-latest'']"
  by (auto simp: generateSceneDescription_def generateEnhancedDescription_def dateNow_def
        monad_defs makeRequest_def firstChoiceText_def isAvailable_def Let_def
        split: fetch_result.splits option.splits list.splits prod.splits sum.splits)

lemma generateSceneDescription_passes_reply:
  "isAvailable w \<Longrightarrow>
   ext_fetch w (Suc (Suc (tick w))) = HttpResponse True (Some (Some content # rest)) \<Longrightarrow>
   \<exists>r w'. generateSceneDescription objs sceneTy lighting detectedText w = (Inr r, w')
          \<and> r_source r = Mistral \<and> r_text r = trim content"
  by (simp add: generateSceneDescription_def generateEnhancedDescription_def dateNow_def
        monad_defs makeRequest_def firstChoiceText_def isAvailable_def Let_def)

lemma generateSceneDescription_returns:
  "\<not> isl (fst (generateSceneDescription objs sceneTy lighting detectedText w))"
  by (auto simp: generateSceneDescription_def dateNow_def monad_defs
        split: prod.splits sum.splits option.splits)

lemma generateSceneDescription_template:
  "\<not> isAvailable w
     \<or> isl (fst (generateEnhancedDescription objs sceneTy lighting detectedText
                    (snd (dateNow w)))) \<Longrightarrow>
   \<exists>r w'. generateSceneDescription objs sceneTy lighting detectedText w = (Inr r, w')
          \<and> r_source r = Template
          \<and> r_text r = generateTemplateDescription objs sceneTy lighting"
  by (auto simp: generateSceneDescription_def dateNow_def monad_defs isAvailable_def
        split: prod.splits sum.splits option.splits)

text \<open>
  C2, as stated, fails for a call that fails without throwing. The provider is enabled
  and answers with status 200 and a first choice whose content is blank. The
  specification treats a response without non-empty text as a failure of the call, but
  \<open>generateEnhancedDescription\<close> returns \<open>text.trim()\<close> untested, and
  \<open>generateSceneDescription\<close> hands it on: a result tagged \<open>'mistral'\<close> with empty
  text, and no fallback.
\<close>

theorem blank_reply_counterexample:
  "isAvailable blankReplyWorld
   \<and> fst (generateSceneDescription
            [\<lparr>label = ''chair'', confidence = Num 0.9,
              bbox = \<lparr>box_x = Num 0, box_y = Num 0, box_width = Num 1, box_height = Num 1\<rparr>,
              distance = Num 1.5\<rparr>]
            ''indoor'' ''moderate'' None blankReplyWorld) =
       Inr \<lparr>r_text = [], r_confidence = 0.95, processingTime = 2, r_source = Mistral\<rparr>"
  by (simp add: generateSceneDescription_def generateEnhancedDescription_def dateNow_def
        monad_defs makeRequest_def firstChoiceText_def isAvailable_def Let_def
        blankReplyWorld_def calmWorld_def trim_def isWhitespace_def)

text \<open>
  C2, amended. Whenever the cloud provider is not available, or is available and its
  call throws, \<open>generateSceneDescription\<close> returns normally with the local template's
  text and the tag \<open>'template'\<close>, the code's tag for text produced on the device. With
  the provider available the call throws exactly when the request is rejected, the
  status is not \<open>ok\<close>, the body is not JSON, or there is no string at
  \<open>choices[0].message.content\<close>; a reply that has a string there, blank or not, is
  returned trimmed with the tag \<open>'mistral'\<close>. In every case no error reaches the
  caller. For a chair at 1.5 m and a couch at 4 m the template's text lists the chair
  after \<open>Close to you:\<close> and the couch after \<open>Further away:\<close>.
\<close>

theorem generateSceneDescription_falls_back:
  "(\<not> isAvailable w
      \<or> isl (fst (generateEnhancedDescription objs sceneTy lighting detectedText
                     (snd (dateNow w))))
    \<longrightarrow> (\<exists>r w'. generateSceneDescription objs sceneTy lighting detectedText w = (Inr r, w')
            \<and> r_source r = Template
            \<and> r_text r = generateTemplateDescription objs sceneTy lighting))
   \<and> (isAvailable w \<longrightarrow>
        isl (fst (generateEnhancedDescription objs sceneTy lighting detectedText
                    (snd (dateNow w)))) =
          (case ext_fetch w (Suc (Suc (tick w))) of
             NetworkFailure \<Rightarrow> True
           | HttpResponse ok body \<Rightarrow>
               \<not> ok \<or> (case body of
                          None \<Rightarrow> True
                        | Some choices \<Rightarrow>
                            (case choices of Some content # _ \<Rightarrow> False | _ \<Rightarrow> True))))
   \<and> (isAvailable w
        \<and> ext_fetch w (Suc (Suc (tick w))) = HttpResponse True (Some (Some reply # rest))
      \<longrightarrow> (\<exists>r w'. generateSceneDescription objs sceneTy lighting detectedText w = (Inr r, w')
              \<and> r_source r = Mistral \<and> r_text r = trim reply))
   \<and> \<not> isl (fst (generateSceneDescription objs sceneTy lighting detectedText w))
   \<and> generateTemplateDescription
       [\<lparr>label = ''chair'', confidence = c1, bbox = b1, distance = Num 1.5\<rparr>,
        \<lparr>label = ''couch'', confidence = c2, bbox = b2, distance = Num 4\<rparr>]
       sceneTy lighting =
     ''You're in a '' @ sceneTy
       @ '' area with '' @ lighting
       @ '' lighting. Close to you: chair. Further away: couch.''"
proof -
  have throws: "isAvailable w \<longrightarrow>
        isl (fst (generateEnhancedDescription objs sceneTy lighting detectedText
                    (snd (dateNow w)))) =
          (case ext_fetch w (Suc (Suc (tick w))) of
             NetworkFailure \<Rightarrow> True
           | HttpResponse ok body \<Rightarrow>
               \<not> ok \<or> (case body of
                          None \<Rightarrow> True
                        | Some choices \<Rightarrow>
                            (case choices of Some content # _ \<Rightarrow> False | _ \<Rightarrow> True)))"
    using generateEnhancedDescription_fails_iff
            [of "snd (dateNow w)" objs sceneTy lighting detectedText]
    by (simp add: dateNow_def isAvailable_def)
  from generateSceneDescription_template [of w objs sceneTy lighting detectedText]
    throws
    generateSceneDescription_passes_reply [of w reply rest objs sceneTy lighting detectedText]
    generateSceneDescription_returns [of objs sceneTy lighting detectedText w]
    chair_and_couch [of c1 b1 c2 b2 sceneTy lighting]
  show ?thesis by (intro conjI impI) (erule conjE | assumption | blast)+
qed

text \<open>
  The ways through: the provider disabled (the reference world), the provider enabled
  on a network that fails, and the provider enabled with a reply.
\<close>

theorem generateSceneDescription_falls_back_witness:
  "\<not> isAvailable calmWorld
   \<and> (\<exists>r w'. generateSceneDescription
         [\<lparr>label = ''chair'', confidence = Num 0.9, bbox = \<lparr>box_x = Num 0, box_y = Num 0, box_width = Num 1, box_height = Num 1\<rparr>, distance = Num 1.5\<rparr>,
          \<lparr>label = ''couch'', confidence = Num 0.8, bbox = \<lparr>box_x = Num 0, box_y = Num 0, box_width = Num 1, box_height = Num 1\<rparr>, distance = Num 4\<rparr>]
         ''indoor'' ''moderate'' None calmWorld = (Inr r, w')
       \<and> r_source r = Template
       \<and> r_text r = ''You're in a indoor area with moderate lighting. Close to you: chair. Further away: couch.'')
   \<and> isAvailable (calmWorld\<lparr>mistralEnabled := True, ext_fetch := \<lambda>k. NetworkFailure\<rparr>)
   \<and> isl (fst (generateEnhancedDescription [] ''indoor'' ''dim'' None
        (snd (dateNow (calmWorld\<lparr>mistralEnabled := True, ext_fetch := \<lambda>k. NetworkFailure\<rparr>)))))
   \<and> (\<exists>r w'. generateSceneDescription [] ''indoor'' ''dim'' None
         (calmWorld\<lparr>mistralEnabled := True, ext_fetch := \<lambda>k. NetworkFailure\<rparr>) = (Inr r, w')
       \<and> r_source r = Template
       \<and> r_text r = ''You appear to be in a indoor area with dim lighting. No specific objects detected nearby.'')
   \<and> isAvailable (calmWorld\<lparr>mistralEnabled := True\<rparr>)
   \<and> (\<exists>r w'. generateSceneDescription [] ''indoor'' ''dim'' None
         (calmWorld\<lparr>mistralEnabled := True\<rparr>) = (Inr r, w')
       \<and> r_source r = Mistral \<and> r_text r = ''A chair is ahead.'')"
proof -
  let ?chairs = "[\<lparr>label = ''chair'', confidence = Num 0.9, bbox = \<lparr>box_x = Num 0, box_y = Num 0, box_width = Num 1, box_height = Num 1\<rparr>, distance = Num 1.5\<rparr>,
                  \<lparr>label = ''couch'', confidence = Num 0.8, bbox = \<lparr>box_x = Num 0, box_y = Num 0, box_width = Num 1, box_height = Num 1\<rparr>, distance = Num 4\<rparr>]"
  let ?down = "calmWorld\<lparr>mistralEnabled := True, ext_fetch := \<lambda>k. NetworkFailure\<rparr>"
  let ?up = "calmWorld\<lparr>mistralEnabled := True\<rparr>"
  have off: "\<not> isAvailable calmWorld"
    by (simp add: isAvailable_def calmWorld_def)
  have on: "isAvailable ?down" "isAvailable ?up"
    by (simp_all add: isAvailable_def)
  have net: "ext_fetch ?down (Suc (Suc (tick ?down))) = NetworkFailure" by simp
  have reply: "ext_fetch ?up (Suc (Suc (tick ?up)))
                 = HttpResponse True (Some (Some ''A chair is ahead.'' # []))"
    by (simp add: calmWorld_def)
  have fails: "isl (fst (generateEnhancedDescription [] ''indoor'' ''dim'' None
                 (snd (dateNow ?down))))"
    using generateSceneDescription_falls_back
            [where w = ?down and objs = "[]" and sceneTy = "''indoor''"
               and lighting = "''dim''" and detectedText = None,
             THEN conjunct2, THEN conjunct1, rule_format, OF on(1)]
    unfolding net by simp
  note a = generateSceneDescription_falls_back
             [where w = calmWorld and objs = ?chairs and sceneTy = "''indoor''"
                and lighting = "''moderate''" and detectedText = None
                and ?c1.0 = "Num 0.9" and ?c2.0 = "Num 0.8"
                and ?b1.0 = "\<lparr>box_x = Num 0, box_y = Num 0, box_width = Num 1, box_height = Num 1\<rparr>"
                and ?b2.0 = "\<lparr>box_x = Num 0, box_y = Num 0, box_width = Num 1, box_height = Num 1\<rparr>",
              THEN conjunct1, rule_format, OF disjI1 [OF off]]
  note b = generateSceneDescription_falls_back
             [where w = ?down and objs = "[]" and sceneTy = "''indoor''"
                and lighting = "''dim''" and detectedText = None,
              THEN conjunct1, rule_format, OF disjI2 [OF fails]]
  note c = generateSceneDescription_falls_back
             [where w = ?up and objs = "[]" and sceneTy = "''indoor''"
                and lighting = "''dim''" and detectedText = None
                and reply = "''A chair is ahead.''" and rest = "[]",
              THEN conjunct2, THEN conjunct2, THEN conjunct1, rule_format,
              OF conjI [OF on(2) reply]]
  have t: "generateTemplateDescription [] ''indoor'' ''dim'' =
      ''You appear to be in a indoor area with dim lighting. No specific objects detected nearby.''"
    by (simp add: generateTemplateDescription_def)
  from a have a': "\<exists>r w'. generateSceneDescription ?chairs
         ''indoor'' ''moderate'' None calmWorld = (Inr r, w')
       \<and> r_source r = Template
       \<and> r_text r = ''You're in a indoor area with moderate lighting. Close to you: chair. Further away: couch.''"
    unfolding chair_and_couch by auto
  from b have b': "\<exists>r w'. generateSceneDescription [] ''indoor'' ''dim'' None ?down = (Inr r, w')
       \<and> r_source r = Template
       \<and> r_text r = ''You appear to be in a indoor area with dim lighting. No specific objects detected nearby.''"
    unfolding t by auto
  from c have c': "\<exists>r w'. generateSceneDescription [] ''indoor'' ''dim'' None ?up = (Inr r, w')
       \<and> r_source r = Mistral \<and> r_text r = ''A chair is ahead.''"
    unfolding trim_reply by auto
  from off a' on(1) fails b' on(2) c' show ?thesis by (intro conjI)
qed

lemma sceneDescription_confidence:
  "fst (generateSceneDescription objs sceneTy lighting detectedText w) = Inr r \<Longrightarrow>
     (r_source r = Mistral \<and> r_confidence r = 0.95)
     \<or> (r_source r = Template \<and> r_confidence r = 0.85)"
  by (auto simp: generateSceneDescription_def generateEnhancedDescription_def dateNow_def
        monad_defs split: prod.splits sum.splits option.splits if_splits)

lemma navigationGuidance_confidence:
  "fst (generateNavigationGuidance targetObject objs userIntent w) = Inr r \<Longrightarrow>
     (r_source r = Mistral \<and> r_confidence r = 0.90)
     \<or> (r_source r = Template \<and> r_confidence r = 0.80)"
  by (auto simp: generateNavigationGuidance_def Mistral_generateNavigationGuidance_def
        dateNow_def monad_defs split: prod.splits sum.splits option.splits if_splits)

lemma answerQuestion_confidence:
  "fst (answerQuestion question sceneContext w) = Inr r \<Longrightarrow>
     (r_source r = Mistral \<and> r_confidence r = 0.92)
     \<or> (r_source r = Template \<and> r_confidence r = 0.75)"
  by (auto simp: answerQuestion_def Mistral_answerQuestion_def dateNow_def monad_defs
        split: prod.splits sum.splits option.splits if_splits)

lemma imageAnalysis_confidence:
  "fst (analyzeImageWithVision imageBase64 mimeType w) = Inr r \<Longrightarrow>
     r_source r = Mistral \<and> r_confidence r = 0.98"
  by (auto simp: analyzeImageWithVision_def dateNow_def monad_defs
        split: prod.splits sum.splits option.splits if_splits)

text \<open>
  C8, as stated, fails for navigation guidance: once the provider has been initialised
  with a key and replies with a well-formed body, the result is cloud-sourced and its
  confidence is 0.90, below 0.95.
\<close>

theorem cloud_confidence_counterexample:
  "generateNavigationGuidance ''door'' [] ''find the door''
     (snd (Mistral_initialize ''key'' calmWorld)) =
     (Inr \<lparr>r_text = ''A chair is ahead.'', r_confidence = 0.9, processingTime = 2,
           r_source = Mistral\<rparr>,
      calmWorld\<lparr>mistralEnabled := True, tick := 4,
                trace := [HttpPost ''mistral-small-latest'']\<rparr>)
   \<and> (0.9 :: real) < 0.95"
  by (simp add: generateNavigationGuidance_def Mistral_generateNavigationGuidance_def
        Mistral_initialize_def dateNow_def monad_defs makeRequest_def firstChoiceText_def
        isAvailable_def calmWorld_def trim_reply Let_def)

text \<open>
  C8, amended. The confidence of every successful narration result is a constant fixed
  by the operation and the source, never computed from the reply: cloud-sourced results
  carry 0.95 (scene description), 0.90 (navigation guidance), 0.92 (question answering)
  or 0.98 (image analysis), so they lie in [0.90, 0.98]; template-sourced results carry
  0.85, 0.80 or 0.75 for the same three operations, so they lie in [0.75, 0.85].
\<close>

theorem confidence_fixed_per_source_and_operation:
  "(fst (generateSceneDescription objs sceneTy lighting detectedText w) = Inr r \<longrightarrow>
      (r_source r = Mistral \<and> r_confidence r = 0.95)
      \<or> (r_source r = Template \<and> r_confidence r = 0.85))
   \<and> (fst (generateNavigationGuidance targetObject objs userIntent w) = Inr r \<longrightarrow>
      (r_source r = Mistral \<and> r_confidence r = 0.90)
      \<or> (r_source r = Template \<and> r_confidence r = 0.80))
   \<and> (fst (answerQuestion question sceneContext w) = Inr r \<longrightarrow>
      (r_source r = Mistral \<and> r_confidence r = 0.92)
      \<or> (r_source r = Template \<and> r_confidence r = 0.75))
   \<and> (fst (analyzeImageWithVision imageBase64 mimeType w) = Inr r \<longrightarrow>
      r_source r = Mistral \<and> r_confidence r = 0.98)"
  using sceneDescription_confidence navigationGuidance_confidence answerQuestion_confidence
    imageAnalysis_confidence
  by blast

text \<open>
  Navigation guidance with the provider off: the template result, confidence 0.80.
\<close>

theorem confidence_fixed_per_source_and_operation_witness:
  "fst (generateNavigationGuidance ''door'' [] ''find the door'' calmWorld) =
     Inr \<lparr>r_text = ''I don't see a door in the current view. Try looking around.'',
          r_confidence = 0.8, processingTime = 1, r_source = Template\<rparr>
   \<and> r_confidence
        \<lparr>r_text = ''I don't see a door in the current view. Try looking around.'',
          r_confidence = 0.8, processingTime = 1, r_source = Template\<rparr> = 0.80"
proof -
  have run: "fst (generateNavigationGuidance ''door'' [] ''find the door'' calmWorld) =
     Inr \<lparr>r_text = ''I don't see a door in the current view. Try looking around.'',
          r_confidence = 0.8, processingTime = 1, r_source = Template\<rparr>"
    by (simp add: generateNavigationGuidance_def generateTemplateNavigation_def dateNow_def
          monad_defs isAvailable_def calmWorld_def)
  from confidence_fixed_per_source_and_operation
         [THEN conjunct2, THEN conjunct1, rule_format, OF run] run
  show ?thesis by simp
qed

text \<open>
  C10. In the local template description an object whose \<open>distance\<close> is absent, or is
  exactly 0, counts as 10 metres away: it is in the far group, not in the close group,
  and the text ends with the far group's labels after \<open>Further away:\<close>.
\<close>

theorem missing_or_zero_distance_is_far:
  assumes "ob \<in> set objs" and "distance ob = Undef \<or> distance ob = Num 0"
  shows "js_or (distance ob) (Num 10) = Num 10
         \<and> ob \<in> set (farObjects objs) \<and> ob \<notin> set (closeObjects objs)
         \<and> generateTemplateDescription objs sceneTy lighting =
             (''You're in a '' @ sceneTy
                @ '' area with '' @ lighting @ '' lighting. '')
             @ (if closeObjects objs = [] then []
                else ''Close to you: '' @ join '', '' (map label (closeObjects objs)) @ ''. '')
             @ ''Further away: '' @ join '', '' (map label (farObjects objs)) @ ''.''"
proof -
  have d: "js_or (distance ob) (Num 10) = Num 10"
    using assms(2) by (auto simp: js_or_def)
  have far: "ob \<in> set (farObjects objs)"
    using assms(1) d by (simp add: farObjects_def js_ge_def js_gt_def)
  have close: "ob \<notin> set (closeObjects objs)"
    using d by (simp add: closeObjects_def)
  have ne: "objs \<noteq> []" "farObjects objs \<noteq> []" using assms(1) far by auto
  have descr: "generateTemplateDescription objs sceneTy lighting =
             (''You're in a '' @ sceneTy
                @ '' area with '' @ lighting @ '' lighting. '')
             @ (if closeObjects objs = [] then []
                else ''Close to you: '' @ join '', '' (map label (closeObjects objs)) @ ''. '')
             @ ''Further away: '' @ join '', '' (map label (farObjects objs)) @ ''.''"
    using ne by (simp add: generateTemplateDescription_def)
  from d far close descr show ?thesis by (intro conjI)
qed

text \<open>A lamp without a distance and a cup at distance 0, beside a chair at 1.5 m.\<close>

theorem missing_or_zero_distance_is_far_witness:
  "generateTemplateDescription
     [\<lparr>label = ''lamp'', confidence = Num 0.9, bbox = \<lparr>box_x = Num 0, box_y = Num 0, box_width = Num 1, box_height = Num 1\<rparr>, distance = Undef\<rparr>,
      \<lparr>label = ''cup'', confidence = Num 0.9, bbox = \<lparr>box_x = Num 0, box_y = Num 0, box_width = Num 1, box_height = Num 1\<rparr>, distance = Num 0\<rparr>,
      \<lparr>label = ''chair'', confidence = Num 0.9, bbox = \<lparr>box_x = Num 0, box_y = Num 0, box_width = Num 1, box_height = Num 1\<rparr>, distance = Num 1.5\<rparr>]
     ''indoor'' ''dim'' =
   ''You're in a indoor area with dim lighting. Close to you: chair. Further away: lamp, cup.''
   \<and> \<lparr>label = ''cup'', confidence = Num 0.9, bbox = \<lparr>box_x = Num 0, box_y = Num 0, box_width = Num 1, box_height = Num 1\<rparr>, distance = Num 0\<rparr>
       \<notin> set (closeObjects
          [\<lparr>label = ''lamp'', confidence = Num 0.9, bbox = \<lparr>box_x = Num 0, box_y = Num 0, box_width = Num 1, box_height = Num 1\<rparr>, distance = Undef\<rparr>,
           \<lparr>label = ''cup'', confidence = Num 0.9, bbox = \<lparr>box_x = Num 0, box_y = Num 0, box_width = Num 1, box_height = Num 1\<rparr>, distance = Num 0\<rparr>,
           \<lparr>label = ''chair'', confidence = Num 0.9, bbox = \<lparr>box_x = Num 0, box_y = Num 0, box_width = Num 1, box_height = Num 1\<rparr>, distance = Num 1.5\<rparr>])"
  using missing_or_zero_distance_is_far
    [of "\<lparr>label = ''cup'', confidence = Num 0.9, bbox = \<lparr>box_x = Num 0, box_y = Num 0, box_width = Num 1, box_height = Num 1\<rparr>, distance = Num 0\<rparr>"
        "[\<lparr>label = ''lamp'', confidence = Num 0.9, bbox = \<lparr>box_x = Num 0, box_y = Num 0, box_width = Num 1, box_height = Num 1\<rparr>, distance = Undef\<rparr>,
          \<lparr>label = ''cup'', confidence = Num 0.9, bbox = \<lparr>box_x = Num 0, box_y = Num 0, box_width = Num 1, box_height = Num 1\<rparr>, distance = Num 0\<rparr>,
          \<lparr>label = ''chair'', confidence = Num 0.9, bbox = \<lparr>box_x = Num 0, box_y = Num 0, box_width = Num 1, box_height = Num 1\<rparr>, distance = Num 1.5\<rparr>]"
        "''indoor''" "''dim''"]
  by (simp add: closeObjects_def farObjects_def js_or_def js_ge_def js_gt_def)

section \<open>Output channels\<close>

text \<open>
  C6, as stated, fails for an empty string in the queue. While \<open>'B'\<close> is being
  spoken, \<open>speak('')\<close> and then \<open>speak('A')\<close> (both without priority) are queued;
  when \<open>'B'\<close> completes, the empty entry is taken off and not spoken, and the channel
  goes idle with \<open>'A'\<close> still queued: nothing but \<open>'B'\<close> has been spoken.
\<close>

theorem queued_empty_string_counterexample:
  "isSpeaking (snd (speak ''B'' False calmWorld))
   \<and> speechQueue (snd (speak ''A'' False (snd (speak [] False
        (snd (speak ''B'' False calmWorld)))))) = [[], ''A'']
   \<and> trace (snd (onDone (snd (speak ''A'' False (snd (speak [] False
        (snd (speak ''B'' False calmWorld)))))))) = [SpeechSpeak ''B'']
   \<and> speechQueue (snd (onDone (snd (speak ''A'' False (snd (speak [] False
        (snd (speak ''B'' False calmWorld)))))))) = [''A'']
   \<and> \<not> isSpeaking (snd (onDone (snd (speak ''A'' False (snd (speak [] False
        (snd (speak ''B'' False calmWorld))))))))"
  by (simp add: speak_def stop_def onDone_def processQueue_def platformCall_def monad_defs
        Let_def calmWorld_def)

text \<open>
  C6, amended. On a platform whose speech calls succeed: while an utterance is being
  spoken, \<open>speak(c, true)\<close> stops it at once, empties the queue whatever it holds, and
  speaks \<open>c\<close>; while an utterance is being spoken, a non-priority \<open>speak(a)\<close> only
  appends \<open>a\<close> to the end of the queue; and when the current utterance completes, the
  entry at the head of the queue is taken off and, if it is a non-empty string, spoken.
  With an empty queue the channel goes idle.
\<close>

theorem speak_priority_and_queue:
  "(isSpeaking w \<longrightarrow> \<not> ext_fails w (tick w) \<longrightarrow> \<not> ext_fails w (Suc (tick w)) \<longrightarrow>
      speak c True w =
        (Inr (), w\<lparr>isSpeaking := True, speechQueue := [], tick := tick w + 2,
                    trace := trace w @ [SpeechStop, SpeechSpeak c]\<rparr>))
   \<and> (isSpeaking w \<longrightarrow>
      speak a False w = (Inr (), w\<lparr>speechQueue := speechQueue w @ [a]\<rparr>))
   \<and> (speechQueue w = a # rest \<longrightarrow> a \<noteq> [] \<longrightarrow> \<not> ext_fails w (tick w) \<longrightarrow>
      onDone w =
        (Inr (), w\<lparr>isSpeaking := True, speechQueue := rest, tick := Suc (tick w),
                    trace := trace w @ [SpeechSpeak a]\<rparr>))
   \<and> (speechQueue w = [] \<longrightarrow> onDone w = (Inr (), w\<lparr>isSpeaking := False\<rparr>))"
  by (simp add: speak_def stop_def onDone_def processQueue_def platformCall_def monad_defs
        Let_def)

text \<open>
  B is being spoken and A is queued: a priority C stops B, drops A and is spoken; in
  the same state the completion of B would have spoken A.
\<close>

theorem speak_priority_and_queue_witness:
  "speak ''C'' True (calmWorld\<lparr>isSpeaking := True, speechQueue := [''A'']\<rparr>) =
     (Inr (), calmWorld\<lparr>isSpeaking := True, speechQueue := [], tick := 2,
                        trace := [SpeechStop, SpeechSpeak ''C'']\<rparr>)
   \<and> speak ''A'' False (calmWorld\<lparr>isSpeaking := True\<rparr>) =
     (Inr (), calmWorld\<lparr>isSpeaking := True, speechQueue := [''A'']\<rparr>)
   \<and> onDone (calmWorld\<lparr>isSpeaking := True, speechQueue := [''A'']\<rparr>) =
     (Inr (), calmWorld\<lparr>isSpeaking := True, speechQueue := [], tick := 1,
                        trace := [SpeechSpeak ''A'']\<rparr>)"
  using speak_priority_and_queue
          [of "calmWorld\<lparr>isSpeaking := True, speechQueue := [''A'']\<rparr>" "''C''" "''A''" "[]"]
        speak_priority_and_queue [of "calmWorld\<lparr>isSpeaking := True\<rparr>" "''C''" "''A''" "[]"]
  by (simp add: calmWorld_def)

lemma trigger_never_throws: "\<exists>w'. trigger pattern w = (Inr (), w')"
  by (simp add: trigger_def try_catch_def ret_def split: prod.splits sum.splits)

lemma warningLoop_three_pulses:
  assumes "\<not> ext_fails w (tick w)" and "\<not> ext_fails w (Suc (tick w))"
    and "\<not> ext_fails w (Suc (Suc (tick w)))"
  shows "warningLoop 0 w =
           (Inr (), w\<lparr>tick := tick w + 3,
                       trace := trace w @ [Impact Medium, Delay 150, Impact Medium, Delay 150,
                                           Impact Medium, Delay 150]\<rparr>)"
  using assms
  apply (subst warningLoop.simps)
  apply (subst warningLoop.simps)
  apply (subst warningLoop.simps)
  apply (subst warningLoop.simps)
  apply (simp add: impactAsync_def platformCall_def delay_def Let_def)
  done

text \<open>On a platform whose haptic calls fail, the first pulse throws and ends the pattern.\<close>

lemma warning_first_pulse_fails:
  "trigger Warning (calmWorld\<lparr>ext_fails := \<lambda>k. True\<rparr>) =
     (Inr (), calmWorld\<lparr>ext_fails := \<lambda>k. True, tick := 1\<rparr>)"
  apply (simp add: trigger_def try_catch_def ret_def calmWorld_def)
  apply (subst warningLoop.simps)
  apply (simp add: impactAsync_def platformCall_def Let_def ret_def)
  done

text \<open>
  C9, as stated, fails once haptics have been switched off with \<open>setEnabled(false)\<close>:
  \<open>trigger('warning')\<close> then returns at its first line and executes no pulse.
\<close>

theorem warning_pulses_counterexample:
  "trigger Warning (snd (Haptic_setEnabled False calmWorld)) =
     (Inr (), calmWorld\<lparr>hapticEnabled := False\<rparr>)
   \<and> trace (snd (trigger Warning (snd (Haptic_setEnabled False calmWorld)))) = []"
  by (simp add: trigger_def Haptic_setEnabled_def calmWorld_def)

text \<open>
  C9, amended. \<open>trigger\<close> never propagates an error, whatever the pattern and the
  platform do. With haptics enabled and the three platform calls succeeding,
  \<open>trigger('warning')\<close> executes exactly three medium pulses, each followed by the
  150 ms delay, and changes nothing else: the voice channel's state neither matters nor
  is touched. With haptics disabled it executes nothing.
\<close>

theorem trigger_warning_three_pulses:
  "(\<exists>w'. trigger pattern w = (Inr (), w'))
   \<and> (hapticEnabled w \<longrightarrow> (\<forall>k<3. \<not> ext_fails w (tick w + k)) \<longrightarrow>
        trigger Warning w =
          (Inr (), w\<lparr>tick := tick w + 3,
                      trace := trace w @ [Impact Medium, Delay 150, Impact Medium, Delay 150,
                                          Impact Medium, Delay 150]\<rparr>))
   \<and> (\<not> hapticEnabled w \<longrightarrow> trigger pattern w = (Inr (), w))"
proof (intro conjI impI)
  show "\<exists>w'. trigger pattern w = (Inr (), w')" by (rule trigger_never_throws)
next
  assume en: "hapticEnabled w" and ok: "\<forall>k<3. \<not> ext_fails w (tick w + k)"
  have "\<not> ext_fails w (tick w)" "\<not> ext_fails w (Suc (tick w))"
    "\<not> ext_fails w (Suc (Suc (tick w)))"
    using ok [rule_format, of 0] ok [rule_format, of 1] ok [rule_format, of 2] by simp_all
  from warningLoop_three_pulses [OF this] en
  show "trigger Warning w =
          (Inr (), w\<lparr>tick := tick w + 3,
                      trace := trace w @ [Impact Medium, Delay 150, Impact Medium, Delay 150,
                                          Impact Medium, Delay 150]\<rparr>)"
    by (simp add: trigger_def try_catch_def)
next
  assume "\<not> hapticEnabled w"
  then show "trigger pattern w = (Inr (), w)" by (simp add: trigger_def)
qed

text \<open>The warning pattern while the voice channel is busy with one entry queued.\<close>

theorem trigger_warning_three_pulses_witness:
  "hapticEnabled (calmWorld\<lparr>isSpeaking := True, speechQueue := [''A'']\<rparr>)
   \<and> trigger Warning (calmWorld\<lparr>isSpeaking := True, speechQueue := [''A'']\<rparr>) =
       (Inr (), calmWorld\<lparr>isSpeaking := True, speechQueue := [''A''], tick := 3,
                          trace := [Impact Medium, Delay 150, Impact Medium, Delay 150,
                                    Impact Medium, Delay 150]\<rparr>)
   \<and> trigger Warning (calmWorld\<lparr>hapticEnabled := False\<rparr>) =
       (Inr (), calmWorld\<lparr>hapticEnabled := False\<rparr>)"
  using trigger_warning_three_pulses
          [of Warning "calmWorld\<lparr>isSpeaking := True, speechQueue := [''A'']\<rparr>"]
        trigger_warning_three_pulses [of Warning "calmWorld\<lparr>hapticEnabled := False\<rparr>"]
  by (simp add: calmWorld_def)

section \<open>The capture cycle and its guard\<close>

lemma try_finally_releases:
  "isProcessing (snd (try_finally m (setIsProcessing False) w)) = False"
  by (simp add: try_finally_def setIsProcessing_def split: prod.splits sum.splits)

lemma analyzeCurrentFrame_started:
  "cameraPresent w \<Longrightarrow> \<not> seenProcessing r \<Longrightarrow>
   analyzeCurrentFrame r speakResult w =
     try_finally (try_catch (cycleBody r speakResult) (cycleCatch speakResult))
       (setIsProcessing False) (w\<lparr>isProcessing := True\<rparr>)"
  by (simp add: analyzeCurrentFrame_def thn_def bnd_def setIsProcessing_def)

text \<open>
  What the guard does achieve: a call through a closure whose render saw the guard set
  is a no-op, and without the timer, as long as a render follows every change of the
  guard before the next tap, at most one cycle is in flight.
\<close>

lemma guard_seen_is_noop:
  "seenProcessing r \<Longrightarrow>
   analyzeCurrentFrame r speakResult w = (Inr (), w) \<and> intervalCallback r w = (Inr (), w)
   \<and> cycleEntry r (w, n) = (w, n)"
  by (simp add: analyzeCurrentFrame_def intervalCallback_def ret_def)

lemma taps_single_flight:
  "rendersKeepUp evs \<Longrightarrow> r = renderOf w \<Longrightarrow> (isProcessing w \<longleftrightarrow> n = 1) \<Longrightarrow> n \<le> 1 \<Longrightarrow>
   snd (snd (schedule evs (w, r, n))) \<le> 1"
proof (induction evs arbitrary: w r n rule: rendersKeepUp.induct)
  case 1
  then show ?case by simp
next
  case (2 evs)
  show ?case
  proof (cases "\<not> cameraPresent w \<or> isProcessing w")
    case True
    then show ?thesis
      using "2.IH" [of "renderOf w" w n] "2.prems" by (auto simp: renderOf_def)
  next
    case False
    then show ?thesis
      using "2.IH" [of "renderOf (w\<lparr>isProcessing := True\<rparr>)" "w\<lparr>isProcessing := True\<rparr>"
                       "Suc n"] "2.prems"
      by (auto simp: renderOf_def)
  qed
next
  case (3 evs)
  show ?case
  proof (cases "n = 0")
    case True
    then show ?thesis using "3.IH" [of "renderOf w" w n] "3.prems" by simp
  next
    case False
    then show ?thesis
      using "3.IH" [of "renderOf (w\<lparr>isProcessing := False\<rparr>)" "w\<lparr>isProcessing := False\<rparr>"
                       "n - 1"] "3.prems"
      by (auto simp: renderOf_def)
  qed
next
  case (4 evs)
  then show ?case by simp
qed simp_all

text \<open>Worked cycles from the reference world, one per way out of the \<open>try\<close>.\<close>

lemmas cycle_defs =
  analyzeCurrentFrame_def cycleBody_def cycleCatch_def sceneCycle_def textCycle_def
  mistralFallback_def base64Of_def takePictureAsync_def analyzeScene_def setIsProcessing_def
  try_finally_def speak_def stop_def trigger_def platformCall_def notificationAsync_def
  impactAsync_def dateNow_def getStatus_def detectText_def mountRender_def

lemma cycle_capture_fails:
  "analyzeCurrentFrame mountRender True (calmWorld\<lparr>ext_photo := \<lambda>k. CaptureFails\<rparr>) =
     (Inr (), calmWorld\<lparr>ext_photo := \<lambda>k. CaptureFails, isSpeaking := True, tick := 4,
        trace := [TakePicture, SpeechStop, SpeechSpeak ''Analysis failed. Please try again'',
                  Notification NotifyError]\<rparr>)"
  by (simp add: cycle_defs monad_defs calmWorld_def Let_def)

lemma cycle_error_escapes:
  "analyzeCurrentFrame mountRender True
     (calmWorld\<lparr>ext_photo := \<lambda>k. CaptureFails, ext_fails := \<lambda>k. True\<rparr>) =
     (Inl (JsError ''platform call failed''),
      calmWorld\<lparr>ext_photo := \<lambda>k. CaptureFails, ext_fails := \<lambda>k. True, tick := 2,
                trace := [TakePicture]\<rparr>)"
  by (simp add: cycle_defs monad_defs calmWorld_def Let_def)

lemma cycle_inference_fails:
  "analyzeCurrentFrame mountRender True (calmWorld\<lparr>ext_infer := \<lambda>k. InferFails\<rparr>) =
     (Inr (), calmWorld\<lparr>ext_infer := \<lambda>k. InferFails, isSpeaking := True, tick := 5,
        trace := [TakePicture, RunInference, SpeechStop,
                  SpeechSpeak ''Analysis failed. Please try again'',
                  Notification NotifyError]\<rparr>)"
  by (simp add: cycle_defs monad_defs calmWorld_def Let_def)

lemma lower_person: "toLowerCase ''person'' = ''person''"
  by (simp add: toLowerCase_def lowerChar_def)

lemma scene_of_person:
  "determineSceneType [\<lparr>label = ''person'', confidence = c, bbox = b, distance = d\<rparr>]
     = ''unknown''"
  by (simp add: determineSceneType_def lower_person)

lemma cycle_completes:
  "analyzeCurrentFrame mountRender True (calmWorld\<lparr>ext_infer := \<lambda>k. Inferred
     [\<lparr>shape = [1, 101, 4],
       tdata = [Num 0.2, Num 0.1, Num 0.7, Num 0.4] @ replicate 400 (Num 0)\<rparr>,
      \<lparr>shape = [1, 101], tdata = Num 0.9 # replicate 100 (Num 0)\<rparr>,
      \<lparr>shape = [1, 101], tdata = Num 1 # replicate 100 (Num 0)\<rparr>]
     [Num 128] [Num 10, Num 20, Num 30]\<rparr>) =
   (Inr (), calmWorld\<lparr>ext_infer := \<lambda>k. Inferred
     [\<lparr>shape = [1, 101, 4],
       tdata = [Num 0.2, Num 0.1, Num 0.7, Num 0.4] @ replicate 400 (Num 0)\<rparr>,
      \<lparr>shape = [1, 101], tdata = Num 0.9 # replicate 100 (Num 0)\<rparr>,
      \<lparr>shape = [1, 101], tdata = Num 1 # replicate 100 (Num 0)\<rparr>]
     [Num 128] [Num 10, Num 20, Num 30],
      isSpeaking := True, tick := 8,
      trace := [TakePicture, RunInference, Impact Light, SpeechStop,
        SpeechSpeak
          ''You're in a unknown area with moderate lighting. Further away: person.'']\<rparr>)"
proof -
  have pp: "processPredictions
     [\<lparr>shape = [1, 101, 4],
       tdata = [Num 0.2, Num 0.1, Num 0.7, Num 0.4] @ replicate 400 (Num 0)\<rparr>,
      \<lparr>shape = [1, 101], tdata = Num 0.9 # replicate 100 (Num 0)\<rparr>,
      \<lparr>shape = [1, 101], tdata = Num 1 # replicate 100 (Num 0)\<rparr>] =
     [\<lparr>label = ''person'', confidence = Num 0.9,
       bbox = \<lparr>box_x = Num 0.1, box_y = Num 0.2, box_width = Num 0.3,
               box_height = Num 0.5\<rparr>,
       distance = Num 6.8\<rparr>]"
    unfolding single_candidate
    by (simp add: js_gt_def confidenceThreshold_def label_person estimateDistance_def
          toDouble_small)
  show ?thesis
    using pp
    by (simp add: cycle_defs monad_defs calmWorld_def Let_def scene_of_person toDouble_small
          generateSceneDescription_def isAvailable_def analyzeLighting_def readAt_def
          js_gt_def generateTemplateDescription_def closeObjects_def farObjects_def
          js_or_def js_ge_def)
qed

text \<open>
  C3 does not hold of the code. The \<open>isProcessing\<close> that \<open>analyzeCurrentFrame\<close> tests
  is the constant of the render that created the closure, not the state. Two taps
  handled by the same render (the second arrives before the screen has taken the
  handler of the render that follows \<open>setIsProcessing(true)\<close>) both pass the guard:
  two cycles are in flight. The timer's callback belongs to the first render, where
  the constant is \<open>false\<close>: a tick that arrives while the state is set, even after the
  screen has rendered again, captures and analyses a frame of its own, and its
  \<open>finally\<close> clears the guard while the first cycle is still running.
\<close>

theorem stale_guard_starts_second_cycle:
  "schedule [Tap, Tap] (calmWorld, mountRender, 0) =
     (calmWorld\<lparr>isProcessing := True\<rparr>, mountRender, 2)
   \<and> schedule [Tap, Rerender, TimerTick] (calmWorld, mountRender, 0) =
       (calmWorld\<lparr>isProcessing := True\<rparr>,
        \<lparr>seenProcessing = True, seenMode = SceneMode\<rparr>, 2)
   \<and> analyzeCurrentFrame mountRender True (calmWorld\<lparr>isProcessing := True\<rparr>) =
       (Inr (), calmWorld\<lparr>isProcessing := False, tick := 3,
                          trace := [TakePicture, RunInference]\<rparr>)
   \<and> intervalCallback mountRender (calmWorld\<lparr>isProcessing := True\<rparr>) =
       (Inr (), calmWorld\<lparr>isProcessing := False, tick := 3,
                          trace := [TakePicture, RunInference]\<rparr>)"
  by (simp add: cycle_defs intervalCallback_def renderOf_def monad_defs calmWorld_def Let_def
        processPredictions_def scoresIndex_def boxesIndex_def classesIndex_def findIndex_def)

text \<open>Two cycles in flight after two taps handled by one render.\<close>

theorem stale_guard_starts_second_cycle_witness:
  "snd (snd (schedule [Tap, Tap] (calmWorld, mountRender, 0))) = 2"
  using stale_guard_starts_second_cycle [THEN conjunct1] by (simp only: snd_conv)

text \<open>
  C7. Once a cycle has started (camera present, and the guard not set in the render
  whose closure is called), the state \<open>isProcessing\<close> is not set when
  \<open>analyzeCurrentFrame\<close> is left, whatever the camera, the model, the network, the
  speech and the haptics do, and whether the call returns normally or an error escapes
  from the \<open>catch\<close> block: the whole cycle runs inside \<open>try ... finally\<close>, and the
  \<open>finally\<close> block resets the guard. The next render therefore sees the guard clear.
\<close>

theorem analyzeCurrentFrame_releases_guard:
  assumes "cameraPresent w" and "\<not> seenProcessing r"
  shows "\<not> isProcessing (snd (analyzeCurrentFrame r speakResult w))
         \<and> \<not> seenProcessing (renderOf (snd (analyzeCurrentFrame r speakResult w)))
         \<and> analyzeCurrentFrame r speakResult w =
             try_finally (try_catch (cycleBody r speakResult) (cycleCatch speakResult))
               (setIsProcessing False) (w\<lparr>isProcessing := True\<rparr>)"
  using assms by (simp add: analyzeCurrentFrame_started try_finally_releases renderOf_def)

text \<open>
  Capture failure, inference failure, an error escaping from the \<open>catch\<close> block, and
  normal completion.
\<close>

theorem analyzeCurrentFrame_releases_guard_witness:
  "cameraPresent calmWorld \<and> \<not> seenProcessing mountRender
   \<and> \<not> isProcessing (snd (analyzeCurrentFrame mountRender True
          (calmWorld\<lparr>ext_photo := \<lambda>k. CaptureFails\<rparr>)))
   \<and> \<not> isProcessing (snd (analyzeCurrentFrame mountRender True
          (calmWorld\<lparr>ext_infer := \<lambda>k. InferFails\<rparr>)))
   \<and> isl (fst (analyzeCurrentFrame mountRender True
          (calmWorld\<lparr>ext_photo := \<lambda>k. CaptureFails, ext_fails := \<lambda>k. True\<rparr>)))
   \<and> \<not> isProcessing (snd (analyzeCurrentFrame mountRender True
          (calmWorld\<lparr>ext_photo := \<lambda>k. CaptureFails, ext_fails := \<lambda>k. True\<rparr>)))
   \<and> \<not> isProcessing (snd (analyzeCurrentFrame mountRender False calmWorld))"
proof -
  have c: "cameraPresent calmWorld" and g: "\<not> seenProcessing mountRender"
    by (simp_all add: calmWorld_def mountRender_def)
  have c1: "cameraPresent (calmWorld\<lparr>ext_photo := \<lambda>k. CaptureFails\<rparr>)"
    and c2: "cameraPresent (calmWorld\<lparr>ext_infer := \<lambda>k. InferFails\<rparr>)"
    and c3: "cameraPresent
               (calmWorld\<lparr>ext_photo := \<lambda>k. CaptureFails, ext_fails := \<lambda>k. True\<rparr>)"
    by (simp_all add: calmWorld_def)
  note r1 = analyzeCurrentFrame_releases_guard [OF c1 g, of True, THEN conjunct1]
  note r2 = analyzeCurrentFrame_releases_guard [OF c2 g, of True, THEN conjunct1]
  note r3 = analyzeCurrentFrame_releases_guard [OF c3 g, of True, THEN conjunct1]
  note r4 = analyzeCurrentFrame_releases_guard [OF c g, of False, THEN conjunct1]
  have e: "isl (fst (analyzeCurrentFrame mountRender True
          (calmWorld\<lparr>ext_photo := \<lambda>k. CaptureFails, ext_fails := \<lambda>k. True\<rparr>)))"
    by (simp add: cycle_error_escapes)
  from c g r1 r2 e r3 r4 show ?thesis by (intro conjI)
qed

end
